theory Spec2Isabelle
  imports Complex_Main
begin

section \<open>Numbers of the source language\<close>

text \<open>
  The controllers compute on JavaScript numbers. A finite number is modelled as a real; the
  three non-finite values are kept as constructors of their own where the first controller
  can produce them. Rounding and the sign of a zero are modelled where a result depends on
  them (\<open>fl\<close> and \<open>jsarg\<close> below) and left out elsewhere.
\<close>

definition trunc :: "real \<Rightarrow> int" where
  "trunc x = (if 0 \<le> x then \<lfloor>x\<rfloor> else - \<lfloor>- x\<rfloor>)"

text \<open>The remainder operator \<open>a % b\<close>: the result takes the sign of the dividend.\<close>

definition jsmod :: "real \<Rightarrow> real \<Rightarrow> real" where
  "jsmod a b = a - b * of_int (trunc (a / b))"

text \<open>The mathematical residue in \<open>[0, 360)\<close>, the "mod 360" of the specification.\<close>

definition mod360 :: "real \<Rightarrow> real" where
  "mod360 x = x - 360 * of_int \<lfloor>x / 360\<rfloor>"

text \<open>
  Where a claim speaks of an exact equality, the rounding of a sum matters. \<open>fl\<close> is the
  rounding of binary64 arithmetic, to the nearest number with a significand of 53 bits and
  to the even one on a tie, for magnitudes below \<open>2^1024\<close>; below \<open>2^-1022\<close> the spacing
  stays \<open>2^-1074\<close>. It is applied to the sum in \<open>(x + 360) % 360\<close>; the remainder
  operator itself is exact in binary64.
\<close>

definition rne :: "real \<Rightarrow> int" where
  "rne t =
     (let f = \<lfloor>t\<rfloor>
      in if t - of_int f < 1 / 2 then f
         else if 1 / 2 < t - of_int f then f + 1
         else if even f then f else f + 1)"

definition fl :: "real \<Rightarrow> real" where
  "fl x =
     (if x = 0 then 0
      else
        (let e = max \<lfloor>log 2 \<bar>x\<bar>\<rfloor> (- 1022);
             u = (2::real) powr (of_int e - 52)
         in u * of_int (rne (x / u))))"

datatype jsnum = Num real | PInf | NInf | NaN

fun jneg :: "jsnum \<Rightarrow> jsnum" where
  "jneg (Num a) = Num (- a)"
| "jneg PInf = NInf"
| "jneg NInf = PInf"
| "jneg NaN = NaN"

fun jadd :: "jsnum \<Rightarrow> jsnum \<Rightarrow> jsnum" where
  "jadd (Num a) (Num b) = Num (a + b)"
| "jadd NaN _ = NaN"
| "jadd _ NaN = NaN"
| "jadd PInf NInf = NaN"
| "jadd NInf PInf = NaN"
| "jadd PInf _ = PInf"
| "jadd _ PInf = PInf"
| "jadd NInf _ = NInf"
| "jadd _ NInf = NInf"

definition jsub :: "jsnum \<Rightarrow> jsnum \<Rightarrow> jsnum" where
  "jsub a b = jadd a (jneg b)"

text \<open>The sign of a number: \<open>None\<close> for NaN, otherwise \<open>-1\<close>, \<open>0\<close> or \<open>1\<close>.\<close>

fun jsign :: "jsnum \<Rightarrow> int option" where
  "jsign (Num a) = Some (if a < 0 then - 1 else if a = 0 then 0 else 1)"
| "jsign PInf = Some 1"
| "jsign NInf = Some (- 1)"
| "jsign NaN = None"

definition inf_of_sign :: "int \<Rightarrow> jsnum" where
  "inf_of_sign s = (if s = 0 then NaN else if 0 < s then PInf else NInf)"

fun jmul :: "jsnum \<Rightarrow> jsnum \<Rightarrow> jsnum" where
  "jmul (Num a) (Num b) = Num (a * b)"
| "jmul x y =
     (case (jsign x, jsign y) of
        (Some s, Some t) \<Rightarrow> inf_of_sign (s * t)
      | _ \<Rightarrow> NaN)"

fun jdiv :: "jsnum \<Rightarrow> jsnum \<Rightarrow> jsnum" where
  "jdiv (Num a) (Num b) =
     (if b = 0 then inf_of_sign (if a < 0 then - 1 else if a = 0 then 0 else 1)
      else Num (a / b))"
| "jdiv (Num a) PInf = Num 0"
| "jdiv (Num a) NInf = Num 0"
| "jdiv PInf (Num b) = (if b < 0 then NInf else PInf)"
| "jdiv NInf (Num b) = (if b < 0 then PInf else NInf)"
| "jdiv _ _ = NaN"

fun jrem :: "jsnum \<Rightarrow> jsnum \<Rightarrow> jsnum" where
  "jrem (Num a) (Num b) = (if b = 0 then NaN else Num (jsmod a b))"
| "jrem (Num a) PInf = Num a"
| "jrem (Num a) NInf = Num a"
| "jrem _ _ = NaN"

fun jless :: "jsnum \<Rightarrow> jsnum \<Rightarrow> bool" where
  "jless (Num a) (Num b) = (a < b)"
| "jless NaN _ = False"
| "jless _ NaN = False"
| "jless NInf NInf = False"
| "jless NInf _ = True"
| "jless PInf _ = False"
| "jless _ PInf = True"
| "jless _ NInf = False"

text \<open>
  \<open>Math.atan2(y, x)\<close> on finite arguments, the angle of the point \<open>(x, y)\<close> in
  \<open>(-\<pi>, \<pi>]\<close>, and its values at the infinities.
\<close>

definition atan2 :: "real \<Rightarrow> real \<Rightarrow> real" where
  "atan2 y x =
     (if 0 < x then arctan (y / x)
      else if x < 0 then (if 0 \<le> y then arctan (y / x) + pi else arctan (y / x) - pi)
      else if 0 < y then pi / 2
      else if y < 0 then - (pi / 2)
      else 0)"

fun jatan2 :: "jsnum \<Rightarrow> jsnum \<Rightarrow> jsnum" where
  "jatan2 (Num y) (Num x) = Num (atan2 y x)"
| "jatan2 NaN _ = NaN"
| "jatan2 _ NaN = NaN"
| "jatan2 (Num y) PInf = Num 0"
| "jatan2 (Num y) NInf = Num (if y < 0 then - pi else pi)"
| "jatan2 PInf (Num x) = Num (pi / 2)"
| "jatan2 NInf (Num x) = Num (- (pi / 2))"
| "jatan2 PInf PInf = Num (pi / 4)"
| "jatan2 PInf NInf = Num (3 * pi / 4)"
| "jatan2 NInf PInf = Num (- (pi / 4))"
| "jatan2 NInf NInf = Num (- (3 * pi / 4))"

text \<open>\<open>a <= b\<close>; \<open>a >= b\<close> is \<open>jle b a\<close>.\<close>

fun jle :: "jsnum \<Rightarrow> jsnum \<Rightarrow> bool" where
  "jle (Num a) (Num b) = (a \<le> b)"
| "jle NaN _ = False"
| "jle _ NaN = False"
| "jle NInf _ = True"
| "jle _ PInf = True"
| "jle PInf _ = False"
| "jle _ NInf = False"

text \<open>
  \<open>Math.tan\<close>. A latitude of 90 degrees times \<open>Math.PI / 180\<close> is the binary64 number
  nearest to \<open>\<pi>/2\<close>, below the pole, and its tangent is the finite number
  16331239353195370; elsewhere the argument is taken as exact.
\<close>

definition jstan :: "real \<Rightarrow> real" where
  "jstan x =
     (if x = pi / 2 then 16331239353195370
      else if x = - (pi / 2) then - 16331239353195370
      else tan x)"

text \<open>
  An argument as the caller passes it: a finite number, or the negative zero, which
  compares equal to zero but is told apart by a division. \<open>Fin 0\<close> is the positive zero.
  The negative zero is followed through the three steps that lead from the latitude to its
  cotangent: times the positive constant \<open>Math.PI / 180\<close>, \<open>Math.tan\<close>, and \<open>1 / x\<close>.
  Zeros that arithmetic produces later on are taken as positive.
\<close>

datatype jsarg = Fin real | NegZero

fun argRadians :: "jsarg \<Rightarrow> jsarg" where
  "argRadians (Fin x) = Fin (x * (pi / 180))"
| "argRadians NegZero = NegZero"

fun argTan :: "jsarg \<Rightarrow> jsarg" where
  "argTan (Fin x) = Fin (jstan x)"
| "argTan NegZero = NegZero"

fun argInverse :: "jsarg \<Rightarrow> jsnum" where
  "argInverse (Fin x) = jdiv (Num 1) (Num x)"
| "argInverse NegZero = NInf"


section \<open>Printing numbers\<close>

definition digit_char :: "nat \<Rightarrow> char" where
  "digit_char n = ''0123456789'' ! n"

fun show_nat :: "nat \<Rightarrow> string" where
  "show_nat n =
     (if n < 10 then [digit_char n] else show_nat (n div 10) @ [digit_char (n mod 10)])"

declare show_nat.simps [simp del]

text \<open>An integer inside a template literal (below \<open>10^21\<close>, where no exponent is printed).\<close>

definition show_int :: "int \<Rightarrow> string" where
  "show_int i = (if i < 0 then CHR ''-'' # show_nat (nat (- i)) else show_nat (nat i))"

text \<open>
  \<open>x.toFixed(2)\<close> for \<open>|x| < 10^21\<close>: the nearest multiple of one hundredth, the
  larger one on a tie, printed with exactly two decimals.
\<close>

definition toFixed2 :: "real \<Rightarrow> string" where
  "toFixed2 x =
     (let n = nat \<lfloor>\<bar>x\<bar> * 100 + 1 / 2\<rfloor>
      in (if x < 0 then ''-'' else '''') @ show_nat (n div 100) @ ''.''
           @ [digit_char (n mod 100 div 10), digit_char (n mod 10)])"


section \<open>Zodiac signs\<close>

text \<open>
  Both controllers hold the same table of twelve signs in the same order; one spells the
  names in Hebrew, the other in English. The table entries are modelled by a datatype.
\<close>

datatype ZodiacSign =
  Aries | Taurus | Gemini | Cancer | Leo | Virgo
  | Libra | Scorpio | Sagittarius | Capricorn | Aquarius | Pisces

definition signs :: "ZodiacSign list" where
  "signs = [Aries, Taurus, Gemini, Cancer, Leo, Virgo,
            Libra, Scorpio, Sagittarius, Capricorn, Aquarius, Pisces]"

text \<open>\<open>signs[index] || null\<close>: every table entry is a non-empty string, hence truthy.\<close>

definition index_or_null :: "'a list \<Rightarrow> int \<Rightarrow> 'a option" where
  "index_or_null xs i = (if 0 \<le> i \<and> nat i < length xs then Some (xs ! nat i) else None)"

text \<open>The memo object of \<open>getZodiacSign\<close>: a stored \<open>null\<close> is \<open>Some None\<close>.\<close>

type_synonym cache = "real \<rightharpoonup> ZodiacSign option"

text \<open>The first controller (Hebrew table): the index is not reduced modulo 12.\<close>

definition getZodiacSign0 :: "cache \<Rightarrow> real \<Rightarrow> ZodiacSign option \<times> cache" where
  "getZodiacSign0 c longitude =
     (case c longitude of
        Some s \<Rightarrow> (s, c)
      | None \<Rightarrow>
          (let index = \<lfloor>longitude / 30\<rfloor>;
               sign = index_or_null signs index
           in (sign, c(longitude \<mapsto> sign))))"

text \<open>The second controller (English table): the index is taken \<open>% 12\<close>.\<close>

definition getZodiacSign2 :: "cache \<Rightarrow> real \<Rightarrow> ZodiacSign option \<times> cache" where
  "getZodiacSign2 c longitude =
     (case c longitude of
        Some s \<Rightarrow> (s, c)
      | None \<Rightarrow>
          (let index = \<lfloor>jsmod (of_int \<lfloor>longitude / 30\<rfloor>) 12\<rfloor>;
               sign = index_or_null signs index
           in (sign, c(longitude \<mapsto> sign))))"


section \<open>Degrees, minutes, seconds\<close>

text \<open>
  \<open>formatDMS\<close> of the first controller; the separators are the degree sign (U+00B0), the
  apostrophe and the double quote.
\<close>

definition formatDMS0 :: "real \<Rightarrow> string" where
  "formatDMS0 decimalDegrees =
     (let degrees = \<lfloor>decimalDegrees\<rfloor>;
          minutes = \<lfloor>jsmod decimalDegrees 1 * 60\<rfloor>;
          seconds = toFixed2 (jsmod (jsmod decimalDegrees 1 * 60) 1 * 60)
      in show_int degrees @ [CHR 0xB0] @ show_int minutes @ [CHR 0x27] @ seconds @ [CHR 0x22])"

text \<open>
  \<open>formatDMS\<close> of the second controller: the same computation; its template holds the two
  characters U+00C2 U+00B0 before the minutes.
\<close>

definition formatDMS2 :: "real \<Rightarrow> string" where
  "formatDMS2 decimalDegrees =
     (let degrees = \<lfloor>decimalDegrees\<rfloor>;
          minutes = \<lfloor>jsmod decimalDegrees 1 * 60\<rfloor>;
          seconds = toFixed2 (jsmod (jsmod decimalDegrees 1 * 60) 1 * 60)
      in show_int degrees @ [CHR 0xC2, CHR 0xB0] @ show_int minutes @ [CHR 0x27] @ seconds
           @ [CHR 0x22])"

text \<open>
  Reading a formatted string back, as the round-trip property of the specification words
  it: the digits before the degree sign, between it and the apostrophe, and the seconds with
  their two decimals, combined as \<open>degrees + minutes/60 + seconds/3600\<close>.
\<close>

definition digit_val :: "char \<Rightarrow> nat" where
  "digit_val c = of_char c - 48"

definition read_nat :: "string \<Rightarrow> nat" where
  "read_nat cs = foldl (\<lambda>a c. 10 * a + digit_val c) 0 cs"

definition parseDMS :: "string \<Rightarrow> real" where
  "parseDMS s =
     (let d = takeWhile (\<lambda>c. c \<noteq> CHR 0xB0) s;
          r1 = tl (dropWhile (\<lambda>c. c \<noteq> CHR 0xB0) s);
          m = takeWhile (\<lambda>c. c \<noteq> CHR 0x27) r1;
          r2 = tl (dropWhile (\<lambda>c. c \<noteq> CHR 0x27) r1);
          sw = takeWhile (\<lambda>c. c \<noteq> CHR ''.'') r2;
          r3 = tl (dropWhile (\<lambda>c. c \<noteq> CHR ''.'') r2);
          sf = takeWhile (\<lambda>c. c \<noteq> CHR 0x22) r3
      in real (read_nat d) + real (read_nat m) / 60
           + (real (read_nat sw) + real (read_nat sf) / 100) / 3600)"


section \<open>Normalising a longitude\<close>

text \<open>
  The specification's \<open>normalize360\<close>, \<open>((x % 360) + 360) % 360\<close>. The controllers have no
  such function: they write \<open>(x + 360) % 360\<close> in place (\<open>wrap360\<close> below, with the sum
  rounded), or reduce first and add 360 to a negative remainder (in \<open>fortuneLongitude0\<close>).
\<close>

definition normalize360 :: "real \<Rightarrow> real" where
  "normalize360 x = jsmod (jsmod x 360 + 360) 360"

definition wrap360 :: "real \<Rightarrow> real" where
  "wrap360 x = jsmod (fl (x + 360)) 360"


section \<open>Day and night charts, Part of Fortune\<close>

text \<open>\<open>isADayChart\<close> of the first controller.\<close>

definition isADayChart :: "real \<Rightarrow> real \<Rightarrow> bool" where
  "isADayChart sunLongitude ascendantLongitude =
     (let descendantLongitude = jsmod (ascendantLongitude + 180) 360
      in sunLongitude \<ge> ascendantLongitude \<and> sunLongitude \<le> descendantLongitude)"

text \<open>\<open>isDayChart\<close> of the second controller, with its interval shifted by 360.\<close>

definition isDayChart :: "real \<Rightarrow> real \<Rightarrow> bool" where
  "isDayChart sunLongitude ascendantLongitude =
     (let descendantLongitude = jsmod (ascendantLongitude + 180) 360
      in (sunLongitude \<ge> ascendantLongitude \<and> sunLongitude \<le> descendantLongitude)
         \<or> (sunLongitude + 360 \<ge> ascendantLongitude
              \<and> sunLongitude + 360 \<le> descendantLongitude + 360))"

text \<open>
  The specification's reading of a day chart: the Sun lies on the arc that starts at the
  Ascendant and runs through increasing longitudes for 180 degrees, to the Descendant.
\<close>

definition onArcToDescendant :: "real \<Rightarrow> real \<Rightarrow> bool" where
  "onArcToDescendant sunLongitude ascendantLongitude =
     (mod360 (sunLongitude - ascendantLongitude) \<le> 180)"

text \<open>
  The Part of Fortune of the first controller (the lines that follow the reading of the
  Ascendant, Moon and Sun longitudes).
\<close>

definition fortuneLongitude0 :: "real \<Rightarrow> real \<Rightarrow> real \<Rightarrow> real" where
  "fortuneLongitude0 ascendant sunLongitude moonLongitude =
     (let isDayChart = isADayChart sunLongitude ascendant;
          fortuneLongitude =
            (if isDayChart then jsmod (ascendant + moonLongitude - sunLongitude) 360
             else jsmod (ascendant - moonLongitude + sunLongitude) 360)
      in if fortuneLongitude < 0 then fortuneLongitude + 360 else fortuneLongitude)"

text \<open>The Part of Fortune of the second controller (inside its loop, for the key \<open>fortune\<close>).\<close>

definition fortuneLongitude2 :: "real \<Rightarrow> real \<Rightarrow> real \<Rightarrow> real" where
  "fortuneLongitude2 ascendant sunLongitude moonLongitude =
     (let isDay = isDayChart sunLongitude ascendant
      in if \<not> isDay then wrap360 (ascendant + moonLongitude - sunLongitude)
         else wrap360 (ascendant - moonLongitude + sunLongitude))"


section \<open>The ephemeris provider\<close>

text \<open>
  The Swiss Ephemeris binding is an external library. Its functions are parameters of the
  model; a call either throws or returns. A result object carries its flag, its error text
  (empty when there is none) and the first entry of its data array; \<open>None\<close> stands for a
  missing result object.
\<close>

datatype 'a outcome = Throws string | Returns 'a

datatype code = Code int | CodeStr string

record calc_result =
  flag :: int
  error :: string
  data0 :: real

record houses_result =
  herror :: string
  points :: "nat \<Rightarrow> real"

record sweph =
  calc_ut :: "real \<Rightarrow> code \<Rightarrow> int \<Rightarrow> calc_result option outcome"
  houses :: "real \<Rightarrow> real \<Rightarrow> real \<Rightarrow> char \<Rightarrow> houses_result"
  sidtime :: "real \<Rightarrow> real"
  deltat :: "real \<Rightarrow> real"

text \<open>The library's constants, with the values of the Swiss Ephemeris header.\<close>

definition SE_ECL_NUT :: code where "SE_ECL_NUT = Code (- 1)"
definition SE_SUN :: code where "SE_SUN = Code 0"
definition SE_MOON :: code where "SE_MOON = Code 1"
definition SE_MERCURY :: code where "SE_MERCURY = Code 2"
definition SE_VENUS :: code where "SE_VENUS = Code 3"
definition SE_MARS :: code where "SE_MARS = Code 4"
definition SE_JUPITER :: code where "SE_JUPITER = Code 5"
definition SE_SATURN :: code where "SE_SATURN = Code 6"
definition SE_URANUS :: code where "SE_URANUS = Code 7"
definition SE_NEPTUNE :: code where "SE_NEPTUNE = Code 8"
definition SE_PLUTO :: code where "SE_PLUTO = Code 9"
definition SE_TRUE_NODE :: code where "SE_TRUE_NODE = Code 11"
definition SE_MEAN_APOG :: code where "SE_MEAN_APOG = Code 12"
definition SE_CHIRON :: code where "SE_CHIRON = Code 15"
definition SE_ASC :: code where "SE_ASC = Code 0"
definition SE_MC :: code where "SE_MC = Code 1"
definition SE_VERTEX :: code where "SE_VERTEX = Code 3"
definition SEFLG_SWIEPH :: int where "SEFLG_SWIEPH = 2"


section \<open>The Vertex and the Midheaven\<close>

text \<open>
  \<open>computeVertex\<close> of the first controller. The only failure it can pass on is the one of
  the provider's call for the obliquity; from the cotangent on, the values may be
  non-finite. The cotangent is named: \<open>latRad\<close> and \<open>cotL\<close> of the source, the steps where
  a latitude of zero divides by zero.
\<close>

definition vertexCot :: "jsarg \<Rightarrow> jsnum" where
  "vertexCot latitude =
     (let latRad = argRadians latitude
      in argInverse (argTan latRad))"

definition computeVertex :: "sweph \<Rightarrow> real \<Rightarrow> jsarg \<Rightarrow> real \<Rightarrow> string + jsnum" where
  "computeVertex sw julianDay latitude longitude =
     (case calc_ut sw julianDay SE_ECL_NUT SEFLG_SWIEPH of
        Throws err \<Rightarrow> Inl err
      | Returns None \<Rightarrow> Inl ''TypeError''
      | Returns (Some obliquityResult) \<Rightarrow>
          (let obliquity = data0 obliquityResult * (pi / 180);
               gst = sidtime sw (julianDay + deltat sw julianDay);
               lst = jsmod (gst + longitude / 15) 24;
               ramc = jsmod (lst * 15) 360;
               ramcRad = ramc * (pi / 180);
               cotL = vertexCot latitude;
               vxNumerator = cos ramcRad;
               vxDenominator =
                 jsub (jmul (Num (sin obliquity)) cotL) (Num (cos obliquity * sin ramcRad));
               vertexLongitude = jmul (jatan2 (Num vxNumerator) vxDenominator) (Num (180 / pi));
               vertexLongitude =
                 (if jless vertexLongitude (Num 0) then jadd vertexLongitude (Num 360)
                  else vertexLongitude)
           in Inr (jrem (jadd vertexLongitude (Num 180)) (Num 360))))"

text \<open>\<open>calculateMC\<close> of the first controller; its call for the obliquity passes the flag 0.\<close>

definition calculateMC :: "sweph \<Rightarrow> real \<Rightarrow> real \<Rightarrow> string + real" where
  "calculateMC sw julianDay longitude =
     (let gst = sidtime sw (julianDay + deltat sw julianDay);
          lst = jsmod (gst + longitude / 15) 24;
          ramc = jsmod (lst * 15) 360
      in case calc_ut sw julianDay SE_ECL_NUT 0 of
           Throws err \<Rightarrow> Inl err
         | Returns None \<Rightarrow> Inl ''TypeError''
         | Returns (Some obliquityResult) \<Rightarrow>
             (let obliquity = data0 obliquityResult * (pi / 180);
                  mcRad =
                    atan2 (sin (ramc * (pi / 180))) (cos (ramc * (pi / 180)) * cos obliquity)
                      * (180 / pi)
              in Inr (wrap360 mcRad)))"

text \<open>
  The Vertex as the specification words it, from the obliquity and the RAMC in radians and
  the latitude in degrees; and the same formula with the cotangent given.
\<close>

definition ramcRadians :: "sweph \<Rightarrow> real \<Rightarrow> real \<Rightarrow> real" where
  "ramcRadians sw julianDay longitude =
     jsmod (jsmod (sidtime sw (julianDay + deltat sw julianDay) + longitude / 15) 24 * 15) 360
       * (pi / 180)"

definition vertexFromCot :: "real \<Rightarrow> real \<Rightarrow> real \<Rightarrow> real" where
  "vertexFromCot obliquity ramcRad cotL =
     (let numerator = cos ramcRad;
          denominator = sin obliquity * cotL - cos obliquity * sin ramcRad;
          raw = atan2 numerator denominator * (180 / pi)
      in mod360 (normalize360 raw + 180))"



section \<open>Point records and their assembly\<close>

text \<open>
  The record stored for a point. In the second controller every longitude comes from the
  provider and is a finite number; in the first controller the Vertex is computed and may
  be non-finite, so its records carry a \<open>jsnum\<close>.
\<close>

record 'n PointRecord =
  apparentLongitudeDms30 :: string
  apparentLongitudeDms360 :: string
  apparentLongitudeDd :: 'n
  zodiacSign :: "ZodiacSign option"

text \<open>
  What a call can change: the memo object of \<open>getZodiacSign\<close> and the lines written with
  \<open>console.error\<close> (the message only; the error object printed after it is left out).
\<close>

record env =
  cache :: cache
  console :: "string list"

definition logError :: "env \<Rightarrow> string \<Rightarrow> env" where
  "logError e msg = e\<lparr>console := console e @ [msg]\<rparr>"

text \<open>
  The object literal that each controller writes out wherever it stores a point: both
  strings, the longitude itself and its sign.
\<close>

text \<open>
  In the first controller the two functions are also reached with a non-finite number:
  \<open>Math.floor\<close> keeps it, every remainder of it is NaN, and \<open>toFixed\<close> prints NaN as
  such; the table has no entry at a non-finite index. (The memo entry stored under such a
  key is left out: it is null, as every later lookup of that key computes.)
\<close>

definition formatDMS0_js :: "jsnum \<Rightarrow> string" where
  "formatDMS0_js decimalDegrees =
     (case decimalDegrees of
        Num x \<Rightarrow> formatDMS0 x
      | PInf \<Rightarrow> ''Infinity'' @ [CHR 0xB0] @ ''NaN'' @ [CHR 0x27] @ ''NaN'' @ [CHR 0x22]
      | NInf \<Rightarrow> ''-Infinity'' @ [CHR 0xB0] @ ''NaN'' @ [CHR 0x27] @ ''NaN'' @ [CHR 0x22]
      | NaN \<Rightarrow> ''NaN'' @ [CHR 0xB0] @ ''NaN'' @ [CHR 0x27] @ ''NaN'' @ [CHR 0x22])"

definition getZodiacSign0_js :: "cache \<Rightarrow> jsnum \<Rightarrow> ZodiacSign option \<times> cache" where
  "getZodiacSign0_js c longitude =
     (case longitude of
        Num x \<Rightarrow> getZodiacSign0 c x
      | _ \<Rightarrow> (None, c))"

definition pointRecord0 :: "cache \<Rightarrow> jsnum \<Rightarrow> jsnum PointRecord \<times> cache" where
  "pointRecord0 c longitude =
     (let (sign, c') = getZodiacSign0_js c longitude
      in (\<lparr>apparentLongitudeDms30 = formatDMS0_js (jrem longitude (Num 30)),
           apparentLongitudeDms360 = formatDMS0_js longitude,
           apparentLongitudeDd = longitude,
           zodiacSign = sign\<rparr>, c'))"

definition pointRecord2 :: "cache \<Rightarrow> real \<Rightarrow> real PointRecord \<times> cache" where
  "pointRecord2 c longitude =
     (let (sign, c') = getZodiacSign2 c longitude
      in (\<lparr>apparentLongitudeDms30 = formatDMS2 (jsmod longitude 30),
           apparentLongitudeDms360 = formatDMS2 longitude,
           apparentLongitudeDd = longitude,
           zodiacSign = sign\<rparr>, c'))"

text \<open>\<open>processSwephResult\<close> of the first controller: a flag other than 0 and 2 yields null.\<close>

definition processSwephResult0 ::
  "env \<Rightarrow> calc_result option \<Rightarrow> string \<Rightarrow> (string \<times> jsnum PointRecord) option \<times> env"
  where
  "processSwephResult0 e result pointName =
     (case result of
        None \<Rightarrow> (None, e)
      | Some r \<Rightarrow>
          if flag r \<noteq> 0 \<and> flag r \<noteq> 2 then (None, e)
          else
            (let longitude = Num (data0 r);
                 (rec, c') = pointRecord0 (cache e) longitude
             in (Some (pointName, rec), e\<lparr>cache := c'\<rparr>)))"

text \<open>
  \<open>processSwephResult\<close> of the second controller: a result with an error text is logged
  and yields null; the point named \<open>node\<close> has its longitude wrapped.
\<close>

definition processSwephResult2 ::
  "env \<Rightarrow> calc_result option \<Rightarrow> string \<Rightarrow> (string \<times> real PointRecord) option \<times> env"
  where
  "processSwephResult2 e result pointName =
     (case result of
        None \<Rightarrow> (None, logError e (''Error calculating '' @ pointName @ '':''))
      | Some r \<Rightarrow>
          if error r \<noteq> [] then (None, logError e (''Error calculating '' @ pointName @ '':''))
          else
            (let longitude = data0 r;
                 longitude = (if pointName = ''node'' then wrap360 longitude else longitude);
                 (rec, c') = pointRecord2 (cache e) longitude
             in (Some (pointName, rec), e\<lparr>cache := c'\<rparr>)))"

type_synonym points = "string \<rightharpoonup> real PointRecord"

type_synonym points0 = "string \<rightharpoonup> jsnum PointRecord"

text \<open>
  The loop of the first controller's \<open>computeAdditionalPoints\<close> over its five points: a
  null result is skipped, a thrown error is caught and logged, and the loop goes on.
\<close>

definition pointsCalculations0 :: "(string \<times> code) list" where
  "pointsCalculations0 =
     [(''lilith'', SE_MEAN_APOG), (''northNode'', SE_TRUE_NODE), (''AC'', SE_ASC),
      (''MC'', SE_MC), (''vertex'', SE_VERTEX)]"

definition pointStep0 ::
  "sweph \<Rightarrow> real \<Rightarrow> points0 \<times> env \<Rightarrow> string \<times> code \<Rightarrow> points0 \<times> env" where
  "pointStep0 sw julianDay st point =
     (let (additionalPoints, e) = st
      in case calc_ut sw julianDay (snd point) SEFLG_SWIEPH of
           Throws err \<Rightarrow> (additionalPoints, logError e (''Error calculating '' @ fst point @ '':''))
         | Returns result \<Rightarrow>
             (case processSwephResult0 e result (fst point) of
                (None, e') \<Rightarrow> (additionalPoints, e')
              | (Some (k, r), e') \<Rightarrow> (additionalPoints(k \<mapsto> r), e')))"

definition collectPoints0 :: "sweph \<Rightarrow> real \<Rightarrow> points0 \<times> env \<Rightarrow> points0 \<times> env" where
  "collectPoints0 sw julianDay st = foldl (pointStep0 sw julianDay) st pointsCalculations0"

text \<open>
  The last block of the first controller's \<open>computeAdditionalPoints\<close>: the Part of Fortune
  from the stored Ascendant and the Moon and Sun longitudes of the second ephemeris. The
  Ascendant is read back from its record, so the day-chart test and the formula are written
  here on a \<open>jsnum\<close>; on a finite Ascendant they are \<open>isADayChart\<close> and
  \<open>fortuneLongitude0\<close>.
\<close>

definition isADayChart_js :: "jsnum \<Rightarrow> jsnum \<Rightarrow> bool" where
  "isADayChart_js sunLongitude ascendantLongitude =
     (let descendantLongitude = jrem (jadd ascendantLongitude (Num 180)) (Num 360)
      in jle ascendantLongitude sunLongitude \<and> jle sunLongitude descendantLongitude)"

definition fortuneLongitude0_js :: "jsnum \<Rightarrow> real \<Rightarrow> real \<Rightarrow> jsnum" where
  "fortuneLongitude0_js ascendant sunLongitude moonLongitude =
     (let isDayChart = isADayChart_js (Num sunLongitude) ascendant;
          fortuneLongitude =
            (if isDayChart
             then jrem (jsub (jadd ascendant (Num moonLongitude)) (Num sunLongitude)) (Num 360)
             else jrem (jadd (jsub ascendant (Num moonLongitude)) (Num sunLongitude)) (Num 360))
      in if jless fortuneLongitude (Num 0) then jadd fortuneLongitude (Num 360)
         else fortuneLongitude)"

definition fortunePoint0 :: "points0 \<times> env \<Rightarrow> real \<Rightarrow> real \<Rightarrow> points0 \<times> env" where
  "fortunePoint0 st moonLongitude sunLongitude =
     (let (additionalPoints, e) = st
      in case (additionalPoints ''AC'', additionalPoints ''MC'') of
           (Some ac, Some mc) \<Rightarrow>
             (let ascendant = apparentLongitudeDd ac;
                  fortuneLongitude = fortuneLongitude0_js ascendant sunLongitude moonLongitude;
                  (rec, c') = pointRecord0 (cache e) fortuneLongitude
              in (additionalPoints(''Fortune'' \<mapsto> rec), e\<lparr>cache := c'\<rparr>))
         | _ \<Rightarrow>
             (additionalPoints,
              logError e
                ''Error: Missing necessary data (AC, MC, Moon, Sun) for calculating Part of Fortune.''))"

text \<open>
  \<open>computeAdditionalPoints\<close> of the first controller, whole: the loop; a further call for
  the Moon, outside any \<open>try\<close>; the Vertex and the Midheaven, computed and stored whatever
  the loop has stored under these keys; the Part of Fortune. A failure of the three steps
  in the middle is the failure of the call. The two last arguments stand for the Moon and
  Sun longitudes that the source reads from its fourth argument, the result of the other
  ephemeris library. The lines written with \<open>console.log\<close> are left out.
\<close>

definition computeAdditionalPoints0 ::
  "sweph \<Rightarrow> env \<Rightarrow> real \<Rightarrow> jsarg \<Rightarrow> real \<Rightarrow> real \<Rightarrow> real \<Rightarrow> string + points0 \<times> env" where
  "computeAdditionalPoints0 sw e julianDay latitude longitude moonLongitude sunLongitude =
     (let (additionalPoints, e) = collectPoints0 sw julianDay (Map.empty, e)
      in case calc_ut sw julianDay SE_MOON SEFLG_SWIEPH of
           Throws err \<Rightarrow> Inl err
         | Returns test \<Rightarrow>
             (case computeVertex sw julianDay latitude longitude of
                Inl err \<Rightarrow> Inl err
              | Inr vertexLongitude \<Rightarrow>
                  (let (vertex, c1) = pointRecord0 (cache e) vertexLongitude;
                       additionalPoints = additionalPoints(''vertex'' \<mapsto> vertex)
                   in case calculateMC sw julianDay longitude of
                        Inl err \<Rightarrow> Inl err
                      | Inr mc \<Rightarrow>
                          (let (mcRecord, c2) = pointRecord0 c1 (Num mc);
                               additionalPoints = additionalPoints(''MC'' \<mapsto> mcRecord)
                           in Inr (fortunePoint0 (additionalPoints, e\<lparr>cache := c2\<rparr>)
                                 moonLongitude sunLongitude)))))"

text \<open>\<open>computeAdditionalPoints\<close> of the second controller: the houses, then the loop.\<close>

definition pointsCalculations2 :: "(string \<times> code) list" where
  "pointsCalculations2 =
     [(''sun'', SE_SUN), (''moon'', SE_MOON), (''mercury'', SE_MERCURY), (''venus'', SE_VENUS),
      (''mars'', SE_MARS), (''jupiter'', SE_JUPITER), (''saturn'', SE_SATURN),
      (''uranus'', SE_URANUS), (''neptune'', SE_NEPTUNE), (''pluto'', SE_PLUTO),
      (''node'', SE_TRUE_NODE), (''lilith'', SE_MEAN_APOG), (''chiron'', SE_CHIRON),
      (''fortune'', CodeStr ''FORTUNE'')]"

definition pointStep2 ::
  "sweph \<Rightarrow> real \<Rightarrow> points \<times> env \<Rightarrow> string \<times> code \<Rightarrow> points \<times> env" where
  "pointStep2 sw julianDay st point =
     (let (additionalPoints, e) = st
      in if fst point = ''fortune'' then
           (case (additionalPoints ''AC'', additionalPoints ''sun'', additionalPoints ''moon'') of
              (Some ac, Some sun, Some moon) \<Rightarrow>
                (let ascendant = apparentLongitudeDd ac;
                     sunLongitude = apparentLongitudeDd sun;
                     moonLongitude = apparentLongitudeDd moon;
                     fortuneLongitude = fortuneLongitude2 ascendant sunLongitude moonLongitude;
                     (rec, c') = pointRecord2 (cache e) fortuneLongitude
                 in (additionalPoints(''fortune'' \<mapsto> rec), e\<lparr>cache := c'\<rparr>))
            | _ \<Rightarrow>
                (additionalPoints,
                 logError e
                   ''Error: Missing necessary data (AC, Sun, Moon) for calculating Part of Fortune.''))
         else
           (case calc_ut sw julianDay (snd point) SEFLG_SWIEPH of
              Throws err \<Rightarrow>
                (additionalPoints, logError e (''Error calculating '' @ fst point @ '':''))
            | Returns calcResult \<Rightarrow>
                (case processSwephResult2 e calcResult (fst point) of
                   (None, e') \<Rightarrow> (additionalPoints, e')
                 | (Some (k, r), e') \<Rightarrow> (additionalPoints(k \<mapsto> r), e'))))"

definition housesPoints2 :: "sweph \<Rightarrow> env \<Rightarrow> real \<Rightarrow> real \<Rightarrow> real \<Rightarrow> points \<times> env" where
  "housesPoints2 sw e julianDay latitude longitude =
     (let housesResult = houses sw julianDay latitude longitude CHR ''P''
      in if herror housesResult \<noteq> [] then (Map.empty, logError e ''Error calculating houses:'')
         else
           (let acLongitude = points housesResult 0;
                mcLongitude = points housesResult 1;
                vertexLongitude = points housesResult 3;
                (ac, c1) = pointRecord2 (cache e) acLongitude;
                (mc, c2) = pointRecord2 c1 mcLongitude;
                (vertex, c3) = pointRecord2 c2 vertexLongitude
            in ([''AC'' \<mapsto> ac, ''MC'' \<mapsto> mc, ''Vertex'' \<mapsto> vertex], e\<lparr>cache := c3\<rparr>)))"

definition computeAdditionalPoints2 ::
  "sweph \<Rightarrow> env \<Rightarrow> real \<Rightarrow> real \<Rightarrow> real \<Rightarrow> points \<times> env" where
  "computeAdditionalPoints2 sw e julianDay latitude longitude =
     foldl (pointStep2 sw julianDay) (housesPoints2 sw e julianDay latitude longitude)
       pointsCalculations2"

text \<open>
  The lookup without the memo object, the record without it, and what the loops store for
  a point of their lists: the record of the returned longitude when the provider's call
  returns a usable result, nothing when it throws or returns a result the controller
  rejects.
\<close>

definition signOf0 :: "real \<Rightarrow> ZodiacSign option" where
  "signOf0 longitude = index_or_null signs \<lfloor>longitude / 30\<rfloor>"

definition signOf2 :: "real \<Rightarrow> ZodiacSign option" where
  "signOf2 longitude = index_or_null signs \<lfloor>jsmod (of_int \<lfloor>longitude / 30\<rfloor>) 12\<rfloor>"

definition recordOf0 :: "jsnum \<Rightarrow> jsnum PointRecord" where
  "recordOf0 longitude =
     \<lparr>apparentLongitudeDms30 = formatDMS0_js (jrem longitude (Num 30)),
      apparentLongitudeDms360 = formatDMS0_js longitude,
      apparentLongitudeDd = longitude,
      zodiacSign = (case longitude of Num x \<Rightarrow> signOf0 x | _ \<Rightarrow> None)\<rparr>"

definition recordOf2 :: "real \<Rightarrow> real PointRecord" where
  "recordOf2 longitude =
     \<lparr>apparentLongitudeDms30 = formatDMS2 (jsmod longitude 30),
      apparentLongitudeDms360 = formatDMS2 longitude,
      apparentLongitudeDd = longitude,
      zodiacSign = signOf2 longitude\<rparr>"

definition calcEntry0 :: "sweph \<Rightarrow> real \<Rightarrow> string \<times> code \<Rightarrow> jsnum PointRecord option" where
  "calcEntry0 sw julianDay point =
     (case calc_ut sw julianDay (snd point) SEFLG_SWIEPH of
        Returns (Some r) \<Rightarrow>
          if flag r \<noteq> 0 \<and> flag r \<noteq> 2 then None else Some (recordOf0 (Num (data0 r)))
      | _ \<Rightarrow> None)"

definition calcEntry2 :: "sweph \<Rightarrow> real \<Rightarrow> string \<times> code \<Rightarrow> real PointRecord option" where
  "calcEntry2 sw julianDay point =
     (case calc_ut sw julianDay (snd point) SEFLG_SWIEPH of
        Returns (Some r) \<Rightarrow>
          if error r \<noteq> [] then None
          else Some (recordOf2 (if fst point = ''node'' then wrap360 (data0 r) else data0 r))
      | _ \<Rightarrow> None)"

text \<open>
  A memo object is consistent when every stored sign is the one the lookup computes; the
  empty object of a fresh process is, and each call keeps it so.
\<close>

definition cache_ok0 :: "cache \<Rightarrow> bool" where
  "cache_ok0 c = (\<forall>x s. c x = Some s \<longrightarrow> s = signOf0 x)"

definition cache_ok2 :: "cache \<Rightarrow> bool" where
  "cache_ok2 c = (\<forall>x s. c x = Some s \<longrightarrow> s = signOf2 x)"


section \<open>A provider and a fresh process for the examples\<close>

text \<open>
  The Sun is at 150 degrees, the Moon at 200, the houses give an Ascendant of 100; the call
  for Mars throws, the call for the mean apogee (Lilith) returns an error result, and the
  obliquity is the one of the epoch J2000.
\<close>

definition exampleProvider :: sweph where
  "exampleProvider =
     \<lparr>calc_ut = (\<lambda>jd c flags.
        if c = SE_MARS then Throws ''boom''
        else if c = SE_MEAN_APOG then
          Returns (Some \<lparr>flag = - 1, error = ''no ephemeris file'', data0 = 0\<rparr>)
        else if c = SE_ECL_NUT then
          Returns (Some \<lparr>flag = 2, error = [], data0 = 234392811 / 10000000\<rparr>)
        else if c = SE_SUN then Returns (Some \<lparr>flag = 2, error = [], data0 = 150\<rparr>)
        else if c = SE_MOON then Returns (Some \<lparr>flag = 2, error = [], data0 = 200\<rparr>)
        else Returns (Some \<lparr>flag = 2, error = [], data0 = 10\<rparr>)),
      houses = (\<lambda>jd lat lon hsys.
        \<lparr>herror = [], points = (\<lambda>i. if i = 0 then 100 else if i = 1 then 10 else 190)\<rparr>),
      sidtime = (\<lambda>t. 18),
      deltat = (\<lambda>t. 0)\<rparr>"

definition freshEnv :: env where
  "freshEnv = \<lparr>cache = Map.empty, console = []\<rparr>"


section \<open>The remainder and the residue modulo 360\<close>

lemma mod360_range: "0 \<le> mod360 x \<and> mod360 x < 360"
proof -
  have "of_int \<lfloor>x / 360\<rfloor> \<le> x / 360" "x / 360 < of_int \<lfloor>x / 360\<rfloor> + 1"
    by linarith+
  then show ?thesis unfolding mod360_def by linarith
qed

lemma mod360_unique:
  assumes "0 \<le> r" "r < 360" "x = r + 360 * of_int k"
  shows "mod360 x = r"
proof -
  have "of_int k \<le> x / 360" "x / 360 < of_int k + 1"
    using assms by linarith+
  then have "\<lfloor>x / 360\<rfloor> = k"
    by (rule floor_unique)
  then show ?thesis unfolding mod360_def using assms by simp
qed

lemma jsmod_nonneg:
  assumes "0 \<le> a" "0 < b"
  shows "jsmod a b = a - b * of_int \<lfloor>a / b\<rfloor>"
  using assms by (simp add: jsmod_def trunc_def)

lemma jsmod_neg:
  assumes "a < 0" "0 < b"
  shows "jsmod a b = a - b * of_int \<lceil>a / b\<rceil>"
proof -
  have "a / b < 0" using assms by (simp add: divide_neg_pos)
  then show ?thesis by (simp add: jsmod_def trunc_def ceiling_def)
qed

lemma jsmod_360_nonneg: "0 \<le> a \<Longrightarrow> jsmod a 360 = mod360 a"
  by (simp add: jsmod_nonneg mod360_def)

lemma jsmod_360_neg_range:
  assumes "a < 0"
  shows "- 360 < jsmod a 360 \<and> jsmod a 360 \<le> 0"
proof -
  have "of_int \<lceil>a / 360\<rceil> - 1 < a / 360" "a / 360 \<le> of_int \<lceil>a / 360\<rceil>"
    by linarith+
  moreover have "jsmod a 360 = a - 360 * of_int \<lceil>a / 360\<rceil>"
    using assms by (simp add: jsmod_neg)
  ultimately show ?thesis by linarith
qed

lemma jsmod_360_neg_fix:
  assumes "a < 0" "jsmod a 360 < 0"
  shows "jsmod a 360 + 360 = mod360 a"
proof -
  have r: "- 360 < jsmod a 360" using jsmod_360_neg_range [OF assms(1)] by simp
  have "a = (jsmod a 360 + 360) + 360 * of_int (\<lceil>a / 360\<rceil> - 1)"
    using assms(1) by (simp add: jsmod_neg)
  then have "mod360 a = jsmod a 360 + 360"
    using r assms(2) by (intro mod360_unique [of _ _ "\<lceil>a / 360\<rceil> - 1"]) linarith+
  then show ?thesis by simp
qed

lemma jsmod_360_neg_zero:
  assumes "a < 0" "\<not> jsmod a 360 < 0"
  shows "jsmod a 360 = mod360 a"
proof -
  have r: "jsmod a 360 = 0" using jsmod_360_neg_range [OF assms(1)] assms(2) by simp
  have "a = 0 + 360 * of_int (\<lceil>a / 360\<rceil>)"
    using assms(1) r by (simp add: jsmod_neg)
  then have "mod360 a = 0" by (intro mod360_unique [of _ _ "\<lceil>a / 360\<rceil>"]) auto
  with r show ?thesis by simp
qed

lemma mod360_shift: "mod360 (x + 360 * of_int k) = mod360 x"
proof -
  have "x + 360 * of_int k = mod360 x + 360 * of_int (\<lfloor>x / 360\<rfloor> + k)"
    by (simp add: mod360_def algebra_simps)
  then show ?thesis
    using mod360_range [of x] by (intro mod360_unique [of _ _ "\<lfloor>x / 360\<rfloor> + k"]) auto
qed

lemma mod360_id: "0 \<le> x \<Longrightarrow> x < 360 \<Longrightarrow> mod360 x = x"
  by (rule mod360_unique [where k = 0]) auto

lemma jsmod_add360: "- 360 \<le> x \<Longrightarrow> jsmod (x + 360) 360 = mod360 x"
proof -
  assume "- 360 \<le> x"
  then have "jsmod (x + 360) 360 = mod360 (x + 360)" by (simp add: jsmod_360_nonneg)
  also have "\<dots> = mod360 x"
    using mod360_shift [of x 1] by simp
  finally show ?thesis .
qed

lemma normalize360_eq_mod360: "normalize360 x = mod360 x"
proof (cases "0 \<le> x")
  case True
  then have "jsmod x 360 = mod360 x" by (rule jsmod_360_nonneg)
  then have "normalize360 x = jsmod (mod360 x + 360) 360" by (simp add: normalize360_def)
  also have "\<dots> = mod360 (mod360 x)" using mod360_range [of x] by (intro jsmod_add360) simp
  also have "\<dots> = mod360 x" using mod360_range [of x] by (intro mod360_id) simp_all
  finally show ?thesis .
next
  case False
  then have neg: "x < 0" by simp
  have r: "- 360 < jsmod x 360 \<and> jsmod x 360 \<le> 0" using jsmod_360_neg_range [OF neg] .
  have "normalize360 x = jsmod (jsmod x 360 + 360) 360" by (simp add: normalize360_def)
  also have "\<dots> = mod360 (jsmod x 360)" using r by (intro jsmod_add360) simp
  also have "\<dots> = mod360 x"
  proof -
    have "jsmod x 360 = x + 360 * of_int (- \<lceil>x / 360\<rceil>)" using neg by (simp add: jsmod_neg)
    then show ?thesis using mod360_shift [of x "- \<lceil>x / 360\<rceil>"] by simp
  qed
  finally show ?thesis .
qed


section \<open>Rounding of a sum\<close>

lemma rne_nonneg: "0 \<le> t \<Longrightarrow> 0 \<le> rne t"
  by (simp add: rne_def Let_def)

lemma fl_nonneg: "0 \<le> x \<Longrightarrow> 0 \<le> fl x"
proof (cases "x = 0")
  case True
  then show ?thesis by (simp add: fl_def)
next
  case False
  assume "0 \<le> x"
  define u where "u = (2::real) powr (of_int (max \<lfloor>log 2 \<bar>x\<bar>\<rfloor> (- 1022)) - 52)"
  have u: "0 < u" unfolding u_def by simp
  then have "0 \<le> x / u" using \<open>0 \<le> x\<close> by simp
  then have "0 \<le> rne (x / u)" by (rule rne_nonneg)
  then have "0 \<le> u * of_int (rne (x / u))" using u by simp
  then show ?thesis using False unfolding fl_def Let_def u_def by simp
qed

text \<open>Between \<open>2^n\<close> and \<open>2^(n+1)\<close> the representable numbers are the multiples of \<open>2^(n-52)\<close>.\<close>

lemma binade:
  fixes x :: real
  assumes "2 ^ n \<le> \<bar>x\<bar>" and "\<bar>x\<bar> < 2 ^ Suc n"
  shows "\<lfloor>log 2 \<bar>x\<bar>\<rfloor> = int n"
proof -
  have "(0::real) < 2 ^ n" by simp
  then have pos: "0 < \<bar>x\<bar>" using assms(1) by linarith
  have a: "(2::real) powr real n = 2 ^ n" by (rule powr_realpow) simp
  have b: "(2::real) powr (real n + 1) = 2 ^ Suc n"
    using powr_realpow [of 2 "Suc n"] by (simp add: add.commute)
  have "(2::real) powr (of_int (int n)) \<le> \<bar>x\<bar>" using assms(1) a by simp
  moreover have "\<bar>x\<bar> < (2::real) powr (of_int (int n) + 1)" using assms(2) b by simp
  ultimately show ?thesis
    using floor_log_eq_powr_iff [of "\<bar>x\<bar>" 2 "int n"] pos by simp
qed

lemma fl_binade:
  fixes x :: real
  assumes "2 ^ n \<le> \<bar>x\<bar>" and "\<bar>x\<bar> < 2 ^ Suc n" and "n \<le> 52"
  shows "fl x = of_int (rne (x * 2 ^ (52 - n))) / 2 ^ (52 - n)"
proof -
  have "(0::real) < 2 ^ n" by simp
  then have nz: "x \<noteq> 0" using assms(1) by linarith
  have e: "max \<lfloor>log 2 \<bar>x\<bar>\<rfloor> (- 1022) = int n" using binade [OF assms(1,2)] by simp
  have "real_of_int (int n) - 52 = - real (52 - n)" using assms(3) by simp
  then have "(2::real) powr (of_int (int n) - 52) = inverse (2 powr real (52 - n))"
    by (simp only: powr_minus)
  also have "\<dots> = inverse (2 ^ (52 - n))"
    using powr_realpow [of 2 "52 - n"] by simp
  finally have u: "(2::real) powr (of_int (int n) - 52) = inverse (2 ^ (52 - n))" .
  have "fl x = inverse (2 ^ (52 - n)) * of_int (rne (x / inverse (2 ^ (52 - n))))"
    using nz unfolding fl_def Let_def e u by simp
  then show ?thesis by (simp add: divide_inverse mult.commute)
qed

text \<open>Sums that are exact, and two that are not.\<close>

lemma fl_exact_examples:
  "fl 320 = 320" "fl 680 = 680" "fl 1040 = 1040" "fl 410 = 410" "fl (- 40) = - 40"
  "fl (247 / 2 + 360) = 247 / 2 + 360"
proof -
  show "fl 320 = 320" by (subst fl_binade [where n = 8]) (simp_all add: rne_def)
  show "fl 680 = 680" by (subst fl_binade [where n = 9]) (simp_all add: rne_def)
  show "fl 1040 = 1040" by (subst fl_binade [where n = 10]) (simp_all add: rne_def)
  show "fl 410 = 410" by (subst fl_binade [where n = 8]) (simp_all add: rne_def)
  show "fl (- 40) = - 40" by (subst fl_binade [where n = 5]) (simp_all add: rne_def)
  show "fl (247 / 2 + 360) = 247 / 2 + 360"
    by (subst fl_binade [where n = 8]) (simp_all add: rne_def Let_def)
qed

lemma fl_rounds_examples:
  "fl (30 - 1 / 2 ^ 48 + 360) = 390" "fl (360 - 1 / 2 ^ 44 + 360) = 720"
proof -
  show "fl (30 - 1 / 2 ^ 48 + 360) = 390"
    by (subst fl_binade [where n = 8]) (simp_all add: rne_def Let_def)
  show "fl (360 - 1 / 2 ^ 44 + 360) = 720"
    by (subst fl_binade [where n = 9]) (simp_all add: rne_def Let_def)
qed

lemma wrap360_range:
  assumes "- 360 \<le> x"
  shows "0 \<le> wrap360 x" and "wrap360 x < 360"
proof -
  have "0 \<le> fl (x + 360)" using assms by (intro fl_nonneg) simp
  then have "wrap360 x = mod360 (fl (x + 360))" by (simp add: wrap360_def jsmod_360_nonneg)
  then show "0 \<le> wrap360 x" "wrap360 x < 360" using mod360_range [of "fl (x + 360)"] by simp_all
qed

lemma wrap360_exact:
  assumes "- 360 \<le> x" and "fl (x + 360) = x + 360"
  shows "wrap360 x = mod360 x"
  using assms by (simp add: wrap360_def jsmod_add360)


section \<open>Normalisation in place\<close>







section \<open>The Part of Fortune\<close>

lemma jsmod_360_fix:
  "(if jsmod x 360 < 0 then jsmod x 360 + 360 else jsmod x 360) = mod360 x"
proof (cases "0 \<le> x")
  case True
  then show ?thesis using mod360_range [of x] by (simp add: jsmod_360_nonneg)
next
  case False
  then have "x < 0" by simp
  then show ?thesis by (simp add: jsmod_360_neg_fix jsmod_360_neg_zero)
qed

lemma fortuneLongitude0_day:
  "isADayChart sunLongitude ascendant \<Longrightarrow>
   fortuneLongitude0 ascendant sunLongitude moonLongitude
     = mod360 (ascendant + moonLongitude - sunLongitude)"
  using jsmod_360_fix [of "ascendant + moonLongitude - sunLongitude"]
  by (simp add: fortuneLongitude0_def Let_def split: if_splits)

lemma fortuneLongitude0_night:
  "\<not> isADayChart sunLongitude ascendant \<Longrightarrow>
   fortuneLongitude0 ascendant sunLongitude moonLongitude
     = mod360 (ascendant + sunLongitude - moonLongitude)"
proof -
  assume night: "\<not> isADayChart sunLongitude ascendant"
  have eq: "ascendant - moonLongitude + sunLongitude = ascendant + sunLongitude - moonLongitude"
    by simp
  show ?thesis
    using night jsmod_360_fix [of "ascendant + sunLongitude - moonLongitude"]
    unfolding fortuneLongitude0_def Let_def eq by (simp split: if_splits)
qed

lemma fortuneLongitude2_swapped:
  assumes "0 \<le> ascendant" "0 \<le> sunLongitude" "0 \<le> moonLongitude"
    and "sunLongitude < 360" "moonLongitude < 360"
    and "fl (ascendant + moonLongitude - sunLongitude + 360)
           = ascendant + moonLongitude - sunLongitude + 360"
    and "fl (ascendant - moonLongitude + sunLongitude + 360)
           = ascendant - moonLongitude + sunLongitude + 360"
  shows "fortuneLongitude2 ascendant sunLongitude moonLongitude
     = (if isDayChart sunLongitude ascendant
        then mod360 (ascendant + sunLongitude - moonLongitude)
        else mod360 (ascendant + moonLongitude - sunLongitude))"
proof -
  have "wrap360 (ascendant + moonLongitude - sunLongitude)
        = mod360 (ascendant + moonLongitude - sunLongitude)"
    using assms by (intro wrap360_exact) linarith+
  moreover have "wrap360 (ascendant - moonLongitude + sunLongitude)
        = mod360 (ascendant + sunLongitude - moonLongitude)"
    using assms wrap360_exact [of "ascendant - moonLongitude + sunLongitude"]
    by (simp add: algebra_simps)
  ultimately show ?thesis by (simp add: fortuneLongitude2_def)
qed


section \<open>Day charts\<close>

text \<open>
  For longitudes in range the test of the second controller reduces to a comparison of the
  Sun with the Descendant alone: the shifted interval holds whenever the Sun is not past
  the Descendant, wherever the Ascendant is.
\<close>

lemma isDayChart_eq:
  assumes "0 \<le> sunLongitude" "ascendantLongitude < 360"
  shows "isDayChart sunLongitude ascendantLongitude
         \<longleftrightarrow> sunLongitude \<le> jsmod (ascendantLongitude + 180) 360"
  using assms by (auto simp add: isDayChart_def Let_def)

text \<open>
  Claim C2 at three inputs. With the Ascendant at 100 the arc to the Descendant runs from
  100 to 280; the Sun at 50 is not on it, and the second controller answers day. With the
  Ascendant at 200 the arc runs through 360 to 20; the Sun at 300 is on it, and the second
  controller answers night. With the Ascendant at 350 and the Sun at 5, on the arc, the
  first controller answers night; the second answers day there.
\<close>

theorem day_chart_examples:
  "isDayChart 50 100 \<and> \<not> onArcToDescendant 50 100
   \<and> \<not> isDayChart 300 200 \<and> onArcToDescendant 300 200
   \<and> \<not> isADayChart 5 350 \<and> onArcToDescendant 5 350 \<and> isDayChart 5 350"
  by (simp add: isDayChart_def isADayChart_def onArcToDescendant_def mod360_def jsmod_def
      trunc_def)


section \<open>Zodiac signs and the memo object\<close>

lemma cache_ok0_empty: "cache_ok0 Map.empty"
  by (simp add: cache_ok0_def)

lemma cache_ok2_empty: "cache_ok2 Map.empty"
  by (simp add: cache_ok2_def)

lemma getZodiacSign0_memo:
  assumes "cache_ok0 c"
  shows "fst (getZodiacSign0 c x) = signOf0 x \<and> cache_ok0 (snd (getZodiacSign0 c x))"
proof (cases "c x")
  case None
  then show ?thesis
    using assms by (simp add: getZodiacSign0_def cache_ok0_def signOf0_def Let_def)
next
  case (Some s)
  then show ?thesis
    using assms by (simp add: getZodiacSign0_def cache_ok0_def)
qed

lemma getZodiacSign2_memo:
  assumes "cache_ok2 c"
  shows "fst (getZodiacSign2 c x) = signOf2 x \<and> cache_ok2 (snd (getZodiacSign2 c x))"
proof (cases "c x")
  case None
  then show ?thesis
    using assms by (simp add: getZodiacSign2_def cache_ok2_def signOf2_def Let_def)
next
  case (Some s)
  then show ?thesis
    using assms by (simp add: getZodiacSign2_def cache_ok2_def)
qed

lemma length_signs: "length signs = 12"
  by (simp add: signs_def)

lemma sign_index:
  fixes x :: real
  assumes "0 \<le> x" "x < 360"
  shows "0 \<le> \<lfloor>x / 30\<rfloor>" and "\<lfloor>x / 30\<rfloor> < 12" and "nat \<lfloor>x / 30\<rfloor> < 12"
proof -
  show a: "0 \<le> \<lfloor>x / 30\<rfloor>" using assms by simp
  show b: "\<lfloor>x / 30\<rfloor> < 12" using assms by (simp add: floor_less_iff)
  show "nat \<lfloor>x / 30\<rfloor> < 12" using a b by linarith
qed

lemma jsmod_small_int:
  assumes "0 \<le> i" "i < 12"
  shows "\<lfloor>jsmod (of_int i) 12\<rfloor> = i"
proof -
  have "0 \<le> real_of_int i / 12" "real_of_int i / 12 < 1" using assms by simp_all
  then have "\<lfloor>real_of_int i / 12\<rfloor> = 0" by (intro floor_unique) simp_all
  then show ?thesis using assms by (simp add: jsmod_def trunc_def)
qed

lemma signOf0_in_range:
  assumes "0 \<le> x" "x < 360"
  shows "signOf0 x = Some (signs ! nat \<lfloor>x / 30\<rfloor>)"
  using assms by (simp add: signOf0_def index_or_null_def length_signs sign_index)

lemma signOf2_in_range:
  assumes "0 \<le> x" "x < 360"
  shows "signOf2 x = Some (signs ! nat \<lfloor>x / 30\<rfloor>)"
  using assms
  by (simp add: signOf2_def index_or_null_def length_signs jsmod_small_int sign_index)

lemma sign_interval:
  assumes "30 * real k \<le> x" "x < 30 * (real k + 1)"
  shows "nat \<lfloor>x / 30\<rfloor> = k"
proof -
  have "of_int (int k) \<le> x / 30" "x / 30 < of_int (int k) + 1" using assms by simp_all
  then have "\<lfloor>x / 30\<rfloor> = int k" by (rule floor_unique)
  then show ?thesis by simp
qed

text \<open>
  Claim C7. For a longitude in \<open>[0, 360)\<close> and a consistent memo object, both lookups
  return a sign, never null: the entry of the table at index \<open>\<lfloor>x / 30\<rfloor>\<close>, which is
  below 12. The table has twelve different entries, and on each interval
  \<open>[30k, 30(k + 1))\<close> the result is the entry \<open>k\<close>. The memo object stays consistent.
\<close>

theorem zodiac_sign_step_function:
  assumes "cache_ok0 c0" and "cache_ok2 c2" and "0 \<le> x" and "x < 360"
  shows "fst (getZodiacSign0 c0 x) = Some (signs ! nat \<lfloor>x / 30\<rfloor>)
         \<and> fst (getZodiacSign2 c2 x) = Some (signs ! nat \<lfloor>x / 30\<rfloor>)
         \<and> nat \<lfloor>x / 30\<rfloor> < 12 \<and> length signs = 12 \<and> distinct signs
         \<and> (30 * real k \<le> x \<and> x < 30 * (real k + 1) \<longrightarrow>
              fst (getZodiacSign0 c0 x) = Some (signs ! k)
              \<and> fst (getZodiacSign2 c2 x) = Some (signs ! k))
         \<and> cache_ok0 (snd (getZodiacSign0 c0 x)) \<and> cache_ok2 (snd (getZodiacSign2 c2 x))"
proof -
  have a: "fst (getZodiacSign0 c0 x) = Some (signs ! nat \<lfloor>x / 30\<rfloor>)"
    using getZodiacSign0_memo [OF assms(1), of x] signOf0_in_range [OF assms(3,4)] by simp
  have b: "fst (getZodiacSign2 c2 x) = Some (signs ! nat \<lfloor>x / 30\<rfloor>)"
    using getZodiacSign2_memo [OF assms(2), of x] signOf2_in_range [OF assms(3,4)] by simp
  have c: "nat \<lfloor>x / 30\<rfloor> < 12" using assms(3,4) by (rule sign_index)
  have d: "length signs = 12 \<and> distinct signs" by (simp add: signs_def)
  have e: "30 * real k \<le> x \<and> x < 30 * (real k + 1) \<longrightarrow> nat \<lfloor>x / 30\<rfloor> = k"
    using sign_interval [of k x] by blast
  show ?thesis
    using a b c d e getZodiacSign0_memo [OF assms(1), of x] getZodiacSign2_memo [OF assms(2), of x]
    by auto
qed

theorem zodiac_sign_step_function_witness:
  "cache_ok0 Map.empty \<and> cache_ok2 Map.empty \<and> (0::real) \<le> 95 \<and> (95::real) < 360
   \<and> (30 * real 3 \<le> (95::real) \<and> (95::real) < 30 * (real 3 + 1))
   \<and> fst (getZodiacSign0 Map.empty 95) = Some (signs ! 3)
   \<and> fst (getZodiacSign2 Map.empty 95) = Some (signs ! 3)
   \<and> signs ! 3 = Cancer"
proof -
  have h: "cache_ok0 Map.empty" "cache_ok2 Map.empty" "(0::real) \<le> 95" "(95::real) < 360"
    by (simp_all add: cache_ok0_def cache_ok2_def)
  have i: "30 * real 3 \<le> (95::real) \<and> (95::real) < 30 * (real 3 + 1)" by simp
  have s: "signs ! 3 = Cancer" by (simp add: signs_def)
  show ?thesis using zodiac_sign_step_function [OF h, of 3] h i s by blast
qed


section \<open>Formatting in degrees, minutes and seconds\<close>

lemma below_ten: "n < 10 \<Longrightarrow> n \<in> {0, 1, 2, 3, 4, 5, 6, 7, 8, 9 :: nat}"
  by (simp only: insert_iff empty_iff) arith

lemma digit_val_digit_char: "n < 10 \<Longrightarrow> digit_val (digit_char n) = n"
  by (drule below_ten) (auto simp add: digit_val_def digit_char_def)

lemma digit_char_no_separator:
  "n < 10 \<Longrightarrow> digit_char n \<noteq> CHR 0xB0 \<and> digit_char n \<noteq> CHR 0x27
     \<and> digit_char n \<noteq> CHR ''.'' \<and> digit_char n \<noteq> CHR 0x22"
  by (drule below_ten) (auto simp add: digit_char_def)

lemma show_nat_no_separator:
  "c \<in> set (show_nat n) \<Longrightarrow>
     c \<noteq> CHR 0xB0 \<and> c \<noteq> CHR 0x27 \<and> c \<noteq> CHR ''.'' \<and> c \<noteq> CHR 0x22"
proof (induction n rule: show_nat.induct)
  case (1 n)
  show ?case
  proof (cases "n < 10")
    case True
    then show ?thesis
      using "1.prems" digit_char_no_separator [of n] by (simp add: show_nat.simps [of n])
  next
    case False
    have "n mod 10 < 10" by simp
    then show ?thesis
      using False "1.prems" "1.IH" digit_char_no_separator [of "n mod 10"]
      by (auto simp add: show_nat.simps [of n])
  qed
qed

lemma read_nat_snoc: "read_nat (cs @ [c]) = 10 * read_nat cs + digit_val c"
  by (simp add: read_nat_def)

lemma read_nat_show_nat: "read_nat (show_nat n) = n"
proof (induction n rule: show_nat.induct)
  case (1 n)
  show ?case
  proof (cases "n < 10")
    case True
    then show ?thesis
      by (simp add: show_nat.simps [of n] read_nat_def digit_val_digit_char)
  next
    case False
    then have "read_nat (show_nat n) = 10 * (n div 10) + n mod 10"
      using "1.IH" by (simp add: show_nat.simps [of n] read_nat_snoc digit_val_digit_char)
    then show ?thesis by simp
  qed
qed

lemma read_nat_two_digits:
  "read_nat [digit_char (n mod 100 div 10), digit_char (n mod 10)] = n mod 100"
proof -
  have "n mod 100 div 10 < 10" by (simp add: less_mult_imp_div_less)
  moreover have "n mod 10 < 10" by simp
  moreover have "10 * (n mod 100 div 10) + n mod 10 = n mod 100"
  proof -
    have "n mod 100 mod 10 = n mod 10" by (simp add: mod_mod_cancel)
    then show ?thesis using mult_div_mod_eq [of 10 "n mod 100"] by simp
  qed
  ultimately show ?thesis by (simp add: read_nat_def digit_val_digit_char)
qed

lemma two_digits_no_separator:
  assumes "c \<in> set [digit_char (n mod 100 div 10), digit_char (n mod 10)]"
  shows "c \<noteq> CHR 0x22"
proof -
  have a: "n mod 100 div 10 < 10" by (simp add: less_mult_imp_div_less)
  have b: "n mod 10 < 10" by simp
  from assms have "c = digit_char (n mod 100 div 10) \<or> c = digit_char (n mod 10)" by simp
  then show ?thesis
    using digit_char_no_separator [OF a] digit_char_no_separator [OF b] by auto
qed

lemma split_at_separator:
  assumes "\<And>c. c \<in> set xs \<Longrightarrow> c \<noteq> s"
  shows "takeWhile (\<lambda>c. c \<noteq> s) (xs @ s # rest) = xs"
    and "tl (dropWhile (\<lambda>c. c \<noteq> s) (xs @ s # rest)) = rest"
  using assms by (induction xs) simp_all

lemma parseDMS_fields:
  assumes d: "\<And>c. c \<in> set ds \<Longrightarrow> c \<noteq> CHR 0xB0" and m: "\<And>c. c \<in> set ms \<Longrightarrow> c \<noteq> CHR 0x27"
    and w: "\<And>c. c \<in> set ws \<Longrightarrow> c \<noteq> CHR ''.''" and f: "\<And>c. c \<in> set fs \<Longrightarrow> c \<noteq> CHR 0x22"
  shows "parseDMS (ds @ [CHR 0xB0] @ ms @ [CHR 0x27] @ ws @ ''.'' @ fs @ [CHR 0x22])
         = real (read_nat ds) + real (read_nat ms) / 60
           + (real (read_nat ws) + real (read_nat fs) / 100) / 3600"
proof -
  let ?r3 = "fs @ [CHR 0x22]"
  let ?r2 = "ws @ CHR ''.'' # ?r3"
  let ?r1 = "ms @ CHR 0x27 # ?r2"
  let ?s = "ds @ CHR 0xB0 # ?r1"
  have s: "ds @ [CHR 0xB0] @ ms @ [CHR 0x27] @ ws @ ''.'' @ fs @ [CHR 0x22] = ?s" by simp
  note a = split_at_separator [of ds "CHR 0xB0" ?r1, OF d]
  note b = split_at_separator [of ms "CHR 0x27" ?r2, OF m]
  note c = split_at_separator [of ws "CHR ''.''" ?r3, OF w]
  note e = split_at_separator [of fs "CHR 0x22" "[]", OF f]
  show ?thesis
    unfolding s parseDMS_def Let_def by (simp only: a b c e)
qed

lemma jsmod_one: "0 \<le> x \<Longrightarrow> jsmod x 1 = frac x"
  by (simp add: jsmod_def trunc_def frac_def)

lemma toFixed2_nonneg:
  "0 \<le> x \<Longrightarrow> toFixed2 x
     = show_nat (nat \<lfloor>x * 100 + 1 / 2\<rfloor> div 100) @ ''.''
       @ [digit_char (nat \<lfloor>x * 100 + 1 / 2\<rfloor> mod 100 div 10),
          digit_char (nat \<lfloor>x * 100 + 1 / 2\<rfloor> mod 10)]"
  by (simp add: toFixed2_def Let_def)


lemma formatDMS0_nonneg:
  assumes "0 \<le> x"
  shows "formatDMS0 x
     = show_nat (nat \<lfloor>x\<rfloor>) @ [CHR 0xB0] @ show_nat (nat \<lfloor>frac x * 60\<rfloor>) @ [CHR 0x27]
       @ toFixed2 (frac (frac x * 60) * 60) @ [CHR 0x22]"
proof -
  have a: "jsmod x 1 = frac x" using assms by (rule jsmod_one)
  have "0 \<le> frac x * 60" by simp
  then have b: "jsmod (frac x * 60) 1 = frac (frac x * 60)" by (rule jsmod_one)
  show ?thesis
    unfolding formatDMS0_def Let_def a b show_int_def using assms by (simp add: not_less)
qed

lemma formatDMS2_nonneg:
  assumes "0 \<le> x"
  shows "formatDMS2 x
     = show_nat (nat \<lfloor>x\<rfloor>) @ [CHR 0xC2, CHR 0xB0] @ show_nat (nat \<lfloor>frac x * 60\<rfloor>) @ [CHR 0x27]
       @ toFixed2 (frac (frac x * 60) * 60) @ [CHR 0x22]"
proof -
  have a: "jsmod x 1 = frac x" using assms by (rule jsmod_one)
  have "0 \<le> frac x * 60" by simp
  then have b: "jsmod (frac x * 60) 1 = frac (frac x * 60)" by (rule jsmod_one)
  show ?thesis
    unfolding formatDMS2_def Let_def a b show_int_def using assms by (simp add: not_less)
qed


lemma parseDMS_formatDMS0:
  assumes "0 \<le> x"
  shows "parseDMS (formatDMS0 x)
     = real (nat \<lfloor>x\<rfloor>) + real (nat \<lfloor>frac x * 60\<rfloor>) / 60
       + (real (nat \<lfloor>frac (frac x * 60) * 60 * 100 + 1 / 2\<rfloor>) / 100) / 3600"
proof -
  let ?s = "frac (frac x * 60) * 60"
  let ?n = "nat \<lfloor>?s * 100 + 1 / 2\<rfloor>"
  let ?D = "show_nat (nat \<lfloor>x\<rfloor>)"
  let ?M = "show_nat (nat \<lfloor>frac x * 60\<rfloor>)"
  let ?W = "show_nat (?n div 100)"
  let ?F = "[digit_char (?n mod 100 div 10), digit_char (?n mod 10)]"
  have s0: "0 \<le> ?s" by simp
  have "formatDMS0 x = ?D @ [CHR 0xB0] @ ?M @ [CHR 0x27] @ ?W @ ''.'' @ ?F @ [CHR 0x22]"
    unfolding formatDMS0_nonneg [OF assms] toFixed2_nonneg [OF s0] by simp
  moreover have "parseDMS (?D @ [CHR 0xB0] @ ?M @ [CHR 0x27] @ ?W @ ''.'' @ ?F @ [CHR 0x22])
      = real (read_nat ?D) + real (read_nat ?M) / 60
        + (real (read_nat ?W) + real (read_nat ?F) / 100) / 3600"
  proof (rule parseDMS_fields)
    show "\<And>c. c \<in> set ?D \<Longrightarrow> c \<noteq> CHR 0xB0" using show_nat_no_separator by blast
    show "\<And>c. c \<in> set ?M \<Longrightarrow> c \<noteq> CHR 0x27" using show_nat_no_separator by blast
    show "\<And>c. c \<in> set ?W \<Longrightarrow> c \<noteq> CHR ''.''" using show_nat_no_separator by blast
    show "\<And>c. c \<in> set ?F \<Longrightarrow> c \<noteq> CHR 0x22" by (rule two_digits_no_separator)
  qed
  moreover have "real (?n div 100) + real (?n mod 100) / 100 = real ?n / 100"
  proof -
    have "real ?n = real (100 * (?n div 100) + ?n mod 100)" by simp
    then show ?thesis by (simp only: of_nat_add of_nat_mult) simp
  qed
  ultimately show ?thesis
    by (simp only: read_nat_show_nat read_nat_two_digits)
qed

lemma dms_decomposition:
  "x = of_int \<lfloor>x\<rfloor> + of_int \<lfloor>frac x * 60\<rfloor> / 60 + (frac (frac x * 60) * 60) / 3600"
proof -
  have "frac x * 60 = of_int \<lfloor>frac x * 60\<rfloor> + frac (frac x * 60)" by (simp add: frac_def)
  then have "frac x = of_int \<lfloor>frac x * 60\<rfloor> / 60 + frac (frac x * 60) / 60" by simp
  moreover have "x = of_int \<lfloor>x\<rfloor> + frac x" by (simp add: frac_def)
  ultimately show ?thesis by simp
qed

lemma round_hundredths:
  assumes "0 \<le> s"
  shows "\<bar>real (nat \<lfloor>s * 100 + 1 / 2\<rfloor>) / 100 - s\<bar> \<le> 1 / 200"
proof -
  have "0 \<le> \<lfloor>s * 100 + 1 / 2\<rfloor>" using assms by simp
  then have n: "real (nat \<lfloor>s * 100 + 1 / 2\<rfloor>) = of_int \<lfloor>s * 100 + 1 / 2\<rfloor>" by simp
  have "of_int \<lfloor>s * 100 + 1 / 2\<rfloor> \<le> s * 100 + 1 / 2"
    "s * 100 + 1 / 2 < of_int \<lfloor>s * 100 + 1 / 2\<rfloor> + 1" by linarith+
  then show ?thesis unfolding n by linarith
qed

text \<open>
  Claim C9. For every non-negative input, reading the degrees, minutes and seconds of the
  formatted string back as \<open>degrees + minutes/60 + seconds/3600\<close> gives the input to within
  \<open>1/360000\<close> of a degree.
\<close>

theorem formatDMS_round_trip:
  assumes "0 \<le> x"
  shows "\<bar>parseDMS (formatDMS0 x) - x\<bar> \<le> 1 / 360000"
proof -
  define s where "s = frac (frac x * 60) * 60"
  define n where "n = real (nat \<lfloor>s * 100 + 1 / 2\<rfloor>)"
  define a where "a = real_of_int \<lfloor>x\<rfloor> + real_of_int \<lfloor>frac x * 60\<rfloor> / 60"
  have d: "real (nat \<lfloor>x\<rfloor>) = of_int \<lfloor>x\<rfloor>" using assms by simp
  have m: "real (nat \<lfloor>frac x * 60\<rfloor>) = of_int \<lfloor>frac x * 60\<rfloor>" by simp
  have "parseDMS (formatDMS0 x) = a + (n / 100) / 3600"
    unfolding parseDMS_formatDMS0 [OF assms] d m a_def n_def s_def ..
  then have p: "parseDMS (formatDMS0 x) = a + n / 360000" by simp
  have x: "x = a + s / 3600"
    using dms_decomposition [of x] unfolding a_def s_def .
  have "0 \<le> s" unfolding s_def by simp
  then have "\<bar>n / 100 - s\<bar> \<le> 1 / 200" unfolding n_def by (rule round_hundredths)
  moreover have "parseDMS (formatDMS0 x) - x = n / 360000 - s / 3600"
    using p x by linarith
  ultimately show ?thesis by linarith
qed

theorem formatDMS_round_trip_witness:
  "(0::real) \<le> 15432 / 125
   \<and> \<bar>parseDMS (formatDMS0 (15432 / 125)) - 15432 / 125\<bar> \<le> 1 / 360000"
  using formatDMS_round_trip [of "15432 / 125"] by simp




section \<open>Assembling the points\<close>

lemma pointRecord0_memo:
  assumes "cache_ok0 c"
  shows "fst (pointRecord0 c v) = recordOf0 v \<and> cache_ok0 (snd (pointRecord0 c v))"
proof (cases v)
  case (Num x)
  then show ?thesis
    using getZodiacSign0_memo [OF assms, of x]
    by (simp add: pointRecord0_def recordOf0_def getZodiacSign0_js_def split_def)
qed (use assms in \<open>simp_all add: pointRecord0_def recordOf0_def getZodiacSign0_js_def\<close>)

lemma pointRecord2_memo:
  assumes "cache_ok2 c"
  shows "fst (pointRecord2 c x) = recordOf2 x \<and> cache_ok2 (snd (pointRecord2 c x))"
  using getZodiacSign2_memo [OF assms, of x]
  by (simp add: pointRecord2_def recordOf2_def split_def)

lemma processSwephResult0_memo:
  assumes "cache_ok0 (cache e)"
  shows "fst (processSwephResult0 e result pointName)
           = (case result of
                None \<Rightarrow> None
              | Some r \<Rightarrow>
                  if flag r \<noteq> 0 \<and> flag r \<noteq> 2 then None
                  else Some (pointName, recordOf0 (Num (data0 r))))
         \<and> cache_ok0 (cache (snd (processSwephResult0 e result pointName)))
         \<and> console (snd (processSwephResult0 e result pointName)) = console e"
proof (cases result)
  case None
  then show ?thesis using assms by (simp add: processSwephResult0_def)
next
  case (Some r)
  then show ?thesis
    using assms pointRecord0_memo [OF assms, of "Num (data0 r)"]
    by (simp add: processSwephResult0_def split_def)
qed

lemma processSwephResult2_memo:
  assumes "cache_ok2 (cache e)"
  shows "fst (processSwephResult2 e result pointName)
           = (case result of
                None \<Rightarrow> None
              | Some r \<Rightarrow>
                  if error r \<noteq> [] then None
                  else Some (pointName,
                         recordOf2 (if pointName = ''node'' then wrap360 (data0 r) else data0 r)))
         \<and> cache_ok2 (cache (snd (processSwephResult2 e result pointName)))"
proof (cases result)
  case None
  then show ?thesis using assms by (simp add: processSwephResult2_def logError_def)
next
  case (Some r)
  then show ?thesis
    using assms pointRecord2_memo [OF assms, of "wrap360 (data0 r)"]
      pointRecord2_memo [OF assms, of "data0 r"]
    by (simp add: processSwephResult2_def split_def logError_def)
qed

lemma pointStep0_memo:
  assumes "cache_ok0 (cache e)"
  shows "fst (pointStep0 sw julianDay (pts, e) p)
           = (case calcEntry0 sw julianDay p of None \<Rightarrow> pts | Some r \<Rightarrow> pts(fst p \<mapsto> r))
         \<and> cache_ok0 (cache (snd (pointStep0 sw julianDay (pts, e) p)))"
proof (cases "calc_ut sw julianDay (snd p) SEFLG_SWIEPH")
  case (Throws err)
  then show ?thesis using assms by (simp add: pointStep0_def calcEntry0_def logError_def)
next
  case (Returns result)
  obtain v e' where pr: "processSwephResult0 e result (fst p) = (v, e')" by (cases "processSwephResult0 e result (fst p)")
  from processSwephResult0_memo [OF assms, of result "fst p"] pr
  have v: "v = (case result of
                None \<Rightarrow> None
              | Some r \<Rightarrow>
                  if flag r \<noteq> 0 \<and> flag r \<noteq> 2 then None
                  else Some (fst p, recordOf0 (Num (data0 r))))"
    and ok: "cache_ok0 (cache e')" by simp_all
  show ?thesis
    using Returns pr ok unfolding v
    by (simp add: pointStep0_def calcEntry0_def split: option.splits)
qed

lemma pointStep2_memo:
  assumes "cache_ok2 (cache e)" and "fst p \<noteq> ''fortune''"
  shows "fst (pointStep2 sw julianDay (pts, e) p)
           = (case calcEntry2 sw julianDay p of None \<Rightarrow> pts | Some r \<Rightarrow> pts(fst p \<mapsto> r))
         \<and> cache_ok2 (cache (snd (pointStep2 sw julianDay (pts, e) p)))"
proof (cases "calc_ut sw julianDay (snd p) SEFLG_SWIEPH")
  case (Throws err)
  then show ?thesis using assms by (simp add: pointStep2_def calcEntry2_def logError_def)
next
  case (Returns result)
  obtain v e' where pr: "processSwephResult2 e result (fst p) = (v, e')" by (cases "processSwephResult2 e result (fst p)")
  from processSwephResult2_memo [OF assms(1), of result "fst p"] pr
  have v: "v = (case result of
                None \<Rightarrow> None
              | Some r \<Rightarrow>
                  if error r \<noteq> [] then None
                  else Some (fst p,
                         recordOf2 (if fst p = ''node'' then wrap360 (data0 r) else data0 r)))"
    and ok: "cache_ok2 (cache e')" by simp_all
  show ?thesis
    using Returns pr ok assms(2) unfolding v
    by (simp add: pointStep2_def calcEntry2_def split: option.splits)
qed

lemma calcLoop0:
  assumes "cache_ok0 (cache e)" and "distinct (map fst ps)"
  shows "cache_ok0 (cache (snd (foldl (pointStep0 sw julianDay) (pts, e) ps)))
         \<and> (\<forall>k. fst (foldl (pointStep0 sw julianDay) (pts, e) ps) k
                = (case map_of ps k of
                     None \<Rightarrow> pts k
                   | Some c \<Rightarrow>
                       (case calcEntry0 sw julianDay (k, c) of None \<Rightarrow> pts k | Some r \<Rightarrow> Some r)))"
  using assms
proof (induction ps arbitrary: pts e)
  case Nil
  then show ?case by simp
next
  case (Cons p ps)
  obtain pts' e' where step: "pointStep0 sw julianDay (pts, e) p = (pts', e')"
    by (cases "pointStep0 sw julianDay (pts, e) p")
  from pointStep0_memo [OF Cons.prems(1), of sw julianDay pts p] step
  have pts': "pts' = (case calcEntry0 sw julianDay p of None \<Rightarrow> pts | Some r \<Rightarrow> pts(fst p \<mapsto> r))"
    and ok: "cache_ok0 (cache e')" by simp_all
  have d: "distinct (map fst ps)" and fresh: "fst p \<notin> fst ` set ps"
    using Cons.prems(2) by simp_all
  note IH = Cons.IH [OF ok d, of pts']
  have "fst (foldl (pointStep0 sw julianDay) (pts', e') ps) k
          = (case map_of (p # ps) k of
               None \<Rightarrow> pts k
             | Some c \<Rightarrow>
                 (case calcEntry0 sw julianDay (k, c) of None \<Rightarrow> pts k | Some r \<Rightarrow> Some r))" for k
  proof (cases "map_of ps k")
    case None
    then show ?thesis
      using IH unfolding pts' by (cases p) (simp split: option.splits)
  next
    case (Some c)
    then have "(k, c) \<in> set ps" by (rule map_of_SomeD)
    then have "k \<in> fst ` set ps" by force
    then have "k \<noteq> fst p" using fresh by blast
    then show ?thesis
      using IH Some unfolding pts' by (cases p) (simp split: option.splits)
  qed
  then show ?case using IH step by simp
qed

lemma calcLoop2:
  assumes "cache_ok2 (cache e)" and "distinct (map fst ps)" and "''fortune'' \<notin> fst ` set ps"
  shows "cache_ok2 (cache (snd (foldl (pointStep2 sw julianDay) (pts, e) ps)))
         \<and> (\<forall>k. fst (foldl (pointStep2 sw julianDay) (pts, e) ps) k
                = (case map_of ps k of
                     None \<Rightarrow> pts k
                   | Some c \<Rightarrow>
                       (case calcEntry2 sw julianDay (k, c) of None \<Rightarrow> pts k | Some r \<Rightarrow> Some r)))"
  using assms
proof (induction ps arbitrary: pts e)
  case Nil
  then show ?case by simp
next
  case (Cons p ps)
  have nf: "fst p \<noteq> ''fortune''" and nf': "''fortune'' \<notin> fst ` set ps"
    using Cons.prems(3) by auto
  obtain pts' e' where step: "pointStep2 sw julianDay (pts, e) p = (pts', e')"
    by (cases "pointStep2 sw julianDay (pts, e) p")
  from pointStep2_memo [OF Cons.prems(1) nf, of sw julianDay pts] step
  have pts': "pts' = (case calcEntry2 sw julianDay p of None \<Rightarrow> pts | Some r \<Rightarrow> pts(fst p \<mapsto> r))"
    and ok: "cache_ok2 (cache e')" by simp_all
  have d: "distinct (map fst ps)" and fresh: "fst p \<notin> fst ` set ps"
    using Cons.prems(2) by simp_all
  note IH = Cons.IH [OF ok d nf', of pts']
  have "fst (foldl (pointStep2 sw julianDay) (pts', e') ps) k
          = (case map_of (p # ps) k of
               None \<Rightarrow> pts k
             | Some c \<Rightarrow>
                 (case calcEntry2 sw julianDay (k, c) of None \<Rightarrow> pts k | Some r \<Rightarrow> Some r))" for k
  proof (cases "map_of ps k")
    case None
    then show ?thesis
      using IH unfolding pts' by (cases p) (simp split: option.splits)
  next
    case (Some c)
    then have "(k, c) \<in> set ps" by (rule map_of_SomeD)
    then have "k \<in> fst ` set ps" by force
    then have "k \<noteq> fst p" using fresh by blast
    then show ?thesis
      using IH Some unfolding pts' by (cases p) (simp split: option.splits)
  qed
  then show ?case using IH step by simp
qed

lemma fortuneStep2:
  assumes "cache_ok2 (cache e)" and "fst p = ''fortune''"
  shows "fst (pointStep2 sw julianDay (pts, e) p)
           = (case (pts ''AC'', pts ''sun'', pts ''moon'') of
                (Some ac, Some sun, Some moon) \<Rightarrow>
                  pts(''fortune'' \<mapsto> recordOf2 (fortuneLongitude2 (apparentLongitudeDd ac)
                    (apparentLongitudeDd sun) (apparentLongitudeDd moon)))
              | _ \<Rightarrow> pts)
         \<and> cache_ok2 (cache (snd (pointStep2 sw julianDay (pts, e) p)))"
proof (cases "\<exists>ac sun moon. pts ''AC'' = Some ac \<and> pts ''sun'' = Some sun \<and> pts ''moon'' = Some moon")
  case True
  then obtain ac sun moon where
    v: "pts ''AC'' = Some ac" "pts ''sun'' = Some sun" "pts ''moon'' = Some moon" by blast
  show ?thesis
    using assms v
      pointRecord2_memo [OF assms(1), of "fortuneLongitude2 (apparentLongitudeDd ac)
        (apparentLongitudeDd sun) (apparentLongitudeDd moon)"]
    by (simp add: pointStep2_def split_def Let_def)
next
  case False
  then show ?thesis
    using assms by (auto simp add: pointStep2_def logError_def split: option.splits)
qed

lemma housesPoints2_memo:
  assumes "cache_ok2 (cache e)"
  shows "cache_ok2 (cache (snd (housesPoints2 sw e julianDay latitude longitude)))
         \<and> fst (housesPoints2 sw e julianDay latitude longitude)
             = (let housesResult = houses sw julianDay latitude longitude CHR ''P''
                in if herror housesResult \<noteq> [] then Map.empty
                   else [''AC'' \<mapsto> recordOf2 (points housesResult 0),
                         ''MC'' \<mapsto> recordOf2 (points housesResult 1),
                         ''Vertex'' \<mapsto> recordOf2 (points housesResult 3)])"
proof -
  let ?h = "houses sw julianDay latitude longitude CHR ''P''"
  let ?c1 = "snd (pointRecord2 (cache e) (points ?h 0))"
  let ?c2 = "snd (pointRecord2 ?c1 (points ?h 1))"
  note r1 = pointRecord2_memo [OF assms, of "points ?h 0"]
  then have ok1: "cache_ok2 ?c1" by simp
  note r2 = pointRecord2_memo [OF ok1, of "points ?h 1"]
  then have ok2: "cache_ok2 ?c2" by simp
  note r3 = pointRecord2_memo [OF ok2, of "points ?h 3"]
  show ?thesis
    using assms r1 r2 r3 by (simp add: housesPoints2_def Let_def split_def logError_def)
qed

lemma pointsCalculations2_split:
  "pointsCalculations2 = butlast pointsCalculations2 @ [(''fortune'', CodeStr ''FORTUNE'')]"
  by (simp add: pointsCalculations2_def)

lemma pointsCalculations2_keys:
  "map fst (butlast pointsCalculations2)
     = [''sun'', ''moon'', ''mercury'', ''venus'', ''mars'', ''jupiter'', ''saturn'', ''uranus'',
        ''neptune'', ''pluto'', ''node'', ''lilith'', ''chiron'']"
  by (simp add: pointsCalculations2_def)

lemma pointsCalculations2_distinct: "distinct (map fst (butlast pointsCalculations2))"
  unfolding pointsCalculations2_keys by simp

lemma pointsCalculations2_no_fortune:
  "k \<in> fst ` set (butlast pointsCalculations2) \<Longrightarrow>
     k \<noteq> ''fortune'' \<and> k \<noteq> ''AC'' \<and> k \<noteq> ''MC'' \<and> k \<noteq> ''Vertex''"
proof -
  assume "k \<in> fst ` set (butlast pointsCalculations2)"
  then have "k \<in> set (map fst (butlast pointsCalculations2))" by (simp del: butlast.simps)
  then show ?thesis unfolding pointsCalculations2_keys by auto
qed

lemma computeAdditionalPoints2_loop:
  fixes sw e julianDay latitude longitude
  defines "hs \<equiv> housesPoints2 sw e julianDay latitude longitude"
  defines "lp \<equiv> foldl (pointStep2 sw julianDay) hs (butlast pointsCalculations2)"
  assumes ok: "cache_ok2 (cache e)"
  shows "cache_ok2 (cache (snd lp))"
    and "fst lp k = (case map_of (butlast pointsCalculations2) k of
                     None \<Rightarrow> fst hs k
                   | Some c \<Rightarrow>
                       (case calcEntry2 sw julianDay (k, c) of
                          None \<Rightarrow> fst hs k
                        | Some r \<Rightarrow> Some r))"
    and "fst (computeAdditionalPoints2 sw e julianDay latitude longitude)
           = (case (fst lp ''AC'', fst lp ''sun'', fst lp ''moon'') of
                (Some ac, Some sun, Some moon) \<Rightarrow>
                  (fst lp)(''fortune'' \<mapsto> recordOf2 (fortuneLongitude2 (apparentLongitudeDd ac)
                    (apparentLongitudeDd sun) (apparentLongitudeDd moon)))
              | _ \<Rightarrow> fst lp)"
proof -
  let ?ps = "butlast pointsCalculations2"
  have okh: "cache_ok2 (cache (snd hs))"
    unfolding hs_def using housesPoints2_memo [OF ok, of sw julianDay latitude longitude] by simp
  have nf: "''fortune'' \<notin> fst ` set ?ps"
    using pointsCalculations2_no_fortune [of "''fortune''"] by blast
  have L: "cache_ok2 (cache (snd lp))
         \<and> (\<forall>k. fst lp k = (case map_of ?ps k of
                     None \<Rightarrow> fst hs k
                   | Some c \<Rightarrow>
                       (case calcEntry2 sw julianDay (k, c) of
                          None \<Rightarrow> fst hs k
                        | Some r \<Rightarrow> Some r)))"
    unfolding lp_def
    using calcLoop2 [OF okh pointsCalculations2_distinct nf, of sw julianDay "fst hs"] by simp
  show ok1: "cache_ok2 (cache (snd lp))" using L by simp
  show "fst lp k = (case map_of ?ps k of
                     None \<Rightarrow> fst hs k
                   | Some c \<Rightarrow>
                       (case calcEntry2 sw julianDay (k, c) of
                          None \<Rightarrow> fst hs k
                        | Some r \<Rightarrow> Some r))"
    using L by simp
  have "foldl (pointStep2 sw julianDay) hs (?ps @ [(''fortune'', CodeStr ''FORTUNE'')])
          = pointStep2 sw julianDay (fst lp, snd lp) (''fortune'', CodeStr ''FORTUNE'')"
    unfolding lp_def by (simp del: butlast.simps)
  then have "computeAdditionalPoints2 sw e julianDay latitude longitude
          = pointStep2 sw julianDay (fst lp, snd lp) (''fortune'', CodeStr ''FORTUNE'')"
    unfolding computeAdditionalPoints2_def hs_def [symmetric]
    using pointsCalculations2_split by simp
  then show "fst (computeAdditionalPoints2 sw e julianDay latitude longitude)
           = (case (fst lp ''AC'', fst lp ''sun'', fst lp ''moon'') of
                (Some ac, Some sun, Some moon) \<Rightarrow>
                  (fst lp)(''fortune'' \<mapsto> recordOf2 (fortuneLongitude2 (apparentLongitudeDd ac)
                    (apparentLongitudeDd sun) (apparentLongitudeDd moon)))
              | _ \<Rightarrow> fst lp)"
    using fortuneStep2 [OF ok1, of "(''fortune'', CodeStr ''FORTUNE'')" sw julianDay "fst lp"]
    by simp
qed

lemma computeAdditionalPoints2_calc:
  assumes "cache_ok2 (cache e)" and "(k, c) \<in> set pointsCalculations2" and "k \<noteq> ''fortune''"
  shows "fst (computeAdditionalPoints2 sw e julianDay latitude longitude) k
           = calcEntry2 sw julianDay (k, c)"
proof -
  let ?ps = "butlast pointsCalculations2"
  let ?hs = "housesPoints2 sw e julianDay latitude longitude"
  let ?lp = "foldl (pointStep2 sw julianDay) ?hs ?ps"
  note L = computeAdditionalPoints2_loop [OF assms(1), of sw julianDay latitude longitude]
  have "(k, c) \<in> set (?ps @ [(''fortune'', CodeStr ''FORTUNE'')])"
    using assms(2) pointsCalculations2_split by simp
  then have mem: "(k, c) \<in> set ?ps" using assms(3) by (simp del: butlast.simps)
  then have m: "map_of ?ps k = Some c"
    using pointsCalculations2_distinct by (simp del: butlast.simps)
  have "k \<in> fst ` set ?ps" using mem by force
  then have "k \<noteq> ''AC'' \<and> k \<noteq> ''MC'' \<and> k \<noteq> ''Vertex''"
    by (rule pointsCalculations2_no_fortune [THEN conjunct2])
  then have "fst ?hs k = None"
    using housesPoints2_memo [OF assms(1), of sw julianDay latitude longitude]
    by (simp add: Let_def split: if_splits)
  then have "fst ?lp k = calcEntry2 sw julianDay (k, c)"
    using L(2) [of k] m by (simp split: option.splits del: butlast.simps)
  moreover have "fst (computeAdditionalPoints2 sw e julianDay latitude longitude) k = fst ?lp k"
    unfolding L(3) using assms(3) by (simp split: option.splits del: butlast.simps)
  ultimately show ?thesis by simp
qed

lemma collectPoints0_calc:
  assumes "cache_ok0 (cache e)" and "(k, c) \<in> set pointsCalculations0"
  shows "fst (collectPoints0 sw julianDay (Map.empty, e)) k = calcEntry0 sw julianDay (k, c)"
proof -
  have d: "distinct (map fst pointsCalculations0)"
    by (simp add: pointsCalculations0_def)
  then have m: "map_of pointsCalculations0 k = Some c" using assms(2) by simp
  show ?thesis
    using calcLoop0 [OF assms(1) d, of sw julianDay Map.empty] m
    by (simp add: collectPoints0_def split: option.splits)
qed

lemma processSwephResult2_console:
  "set (console e) \<subseteq> set (console (snd (processSwephResult2 e result pointName)))
   \<and> (fst (processSwephResult2 e result pointName) = None \<longrightarrow>
        ''Error calculating '' @ pointName @ '':''
          \<in> set (console (snd (processSwephResult2 e result pointName))))"
  by (cases result) (auto simp add: processSwephResult2_def logError_def split_def Let_def)

lemma pointStep2_console:
  "set (console e) \<subseteq> set (console (snd (pointStep2 sw julianDay (pts, e) p)))"
proof (cases "fst p = ''fortune''")
  case True
  then show ?thesis
    by (auto simp add: pointStep2_def logError_def split_def Let_def split: option.splits)
next
  case False
  show ?thesis
  proof (cases "calc_ut sw julianDay (snd p) SEFLG_SWIEPH")
    case (Throws err)
    then show ?thesis using False by (auto simp add: pointStep2_def logError_def)
  next
    case (Returns result)
    then show ?thesis
      using False processSwephResult2_console [where e = e and result = result
          and pointName = "fst p"]
      by (cases "processSwephResult2 e result (fst p)")
         (auto simp add: pointStep2_def split: option.splits)
  qed
qed

lemma pointStep2_logs:
  assumes "cache_ok2 (cache e)" and "fst p \<noteq> ''fortune''" and "calcEntry2 sw julianDay p = None"
  shows "''Error calculating '' @ fst p @ '':''
           \<in> set (console (snd (pointStep2 sw julianDay (pts, e) p)))"
proof (cases "calc_ut sw julianDay (snd p) SEFLG_SWIEPH")
  case (Throws err)
  then show ?thesis using assms(2) by (simp add: pointStep2_def logError_def)
next
  case (Returns result)
  have "fst (processSwephResult2 e result (fst p)) = None"
    using processSwephResult2_memo [OF assms(1), where result = result and pointName = "fst p"]
      assms(3) Returns
    by (cases result) (auto simp add: calcEntry2_def split: if_splits)
  then show ?thesis
    using Returns assms(2) processSwephResult2_console [where e = e and result = result
        and pointName = "fst p"]
    by (cases "processSwephResult2 e result (fst p)") (simp add: pointStep2_def)
qed

lemma foldl_pointStep2_console:
  "set (console e) \<subseteq> set (console (snd (foldl (pointStep2 sw julianDay) (pts, e) ps)))"
proof (induction ps arbitrary: pts e)
  case Nil
  then show ?case by simp
next
  case (Cons p ps)
  obtain pts' e' where step: "pointStep2 sw julianDay (pts, e) p = (pts', e')"
    by (cases "pointStep2 sw julianDay (pts, e) p")
  have "set (console e) \<subseteq> set (console e')"
    using pointStep2_console [where e = e and sw = sw and julianDay = julianDay and pts = pts
        and p = p] step by simp
  then show ?case
    using Cons.IH [where pts = pts' and e = e'] step by auto
qed

lemma foldl_pointStep2_logs:
  assumes "cache_ok2 (cache e)" and "distinct (map fst ps)" and "''fortune'' \<notin> fst ` set ps"
    and "p \<in> set ps" and "calcEntry2 sw julianDay p = None"
  shows "''Error calculating '' @ fst p @ '':''
           \<in> set (console (snd (foldl (pointStep2 sw julianDay) (pts, e) ps)))"
  using assms
proof (induction ps arbitrary: pts e)
  case Nil
  then show ?case by simp
next
  case (Cons q ps)
  have nf: "fst q \<noteq> ''fortune''" and nf': "''fortune'' \<notin> fst ` set ps"
    using Cons.prems(3) by auto
  obtain pts' e' where step: "pointStep2 sw julianDay (pts, e) q = (pts', e')"
    by (cases "pointStep2 sw julianDay (pts, e) q")
  have ok: "cache_ok2 (cache e')"
    using pointStep2_memo [OF Cons.prems(1) nf, where sw = sw and julianDay = julianDay
        and pts = pts] step by simp
  show ?case
  proof (cases "p = q")
    case True
    have "''Error calculating '' @ fst p @ '':'' \<in> set (console e')"
      using pointStep2_logs [where e = e and p = q and sw = sw and julianDay = julianDay
          and pts = pts] Cons.prems(1,5) nf step True
      by simp
    then show ?thesis
      using foldl_pointStep2_console [where e = e' and sw = sw and julianDay = julianDay
          and pts = pts' and ps = ps] step by auto
  next
    case False
    then have "p \<in> set ps" using Cons.prems(4) by simp
    then show ?thesis
      using Cons.IH [where pts = pts' and e = e'] ok nf' Cons.prems(2,5) step by simp
  qed
qed

lemma computeAdditionalPoints2_logs:
  assumes "cache_ok2 (cache e)" and "(k, c) \<in> set pointsCalculations2" and "k \<noteq> ''fortune''"
    and "calcEntry2 sw julianDay (k, c) = None"
  shows "''Error calculating '' @ k @ '':''
           \<in> set (console (snd (computeAdditionalPoints2 sw e julianDay latitude longitude)))"
proof -
  let ?ps = "butlast pointsCalculations2"
  let ?hs = "housesPoints2 sw e julianDay latitude longitude"
  let ?lp = "foldl (pointStep2 sw julianDay) ?hs ?ps"
  have okh: "cache_ok2 (cache (snd ?hs))"
    using housesPoints2_memo [OF assms(1), of sw julianDay latitude longitude] by simp
  have "(k, c) \<in> set (?ps @ [(''fortune'', CodeStr ''FORTUNE'')])"
    using assms(2) pointsCalculations2_split by simp
  then have mem: "(k, c) \<in> set ?ps" using assms(3) by (simp del: butlast.simps)
  have nf: "''fortune'' \<notin> fst ` set ?ps"
    using pointsCalculations2_no_fortune [of "''fortune''"] by blast
  have "''Error calculating '' @ fst (k, c) @ '':''
          \<in> set (console (snd (foldl (pointStep2 sw julianDay) (fst ?hs, snd ?hs) ?ps)))"
    using okh pointsCalculations2_distinct nf mem assms(4) by (rule foldl_pointStep2_logs)
  then have a: "''Error calculating '' @ k @ '':'' \<in> set (console (snd ?lp))" by simp
  have "foldl (pointStep2 sw julianDay) ?hs (?ps @ [(''fortune'', CodeStr ''FORTUNE'')])
          = pointStep2 sw julianDay (fst ?lp, snd ?lp) (''fortune'', CodeStr ''FORTUNE'')"
    by (simp del: butlast.simps)
  then have "computeAdditionalPoints2 sw e julianDay latitude longitude
          = pointStep2 sw julianDay (fst ?lp, snd ?lp) (''fortune'', CodeStr ''FORTUNE'')"
    unfolding computeAdditionalPoints2_def using pointsCalculations2_split by simp
  then show ?thesis
    using a pointStep2_console [where e = "snd ?lp" and sw = sw and julianDay = julianDay
        and pts = "fst ?lp" and p = "(''fortune'', CodeStr ''FORTUNE'')"]
    by auto
qed


section \<open>The Vertex formula\<close>

lemma atan2_range: "- pi < atan2 y x \<and> atan2 y x \<le> pi"
proof -
  have b: "- (pi / 2) < arctan (y / x)" "arctan (y / x) < pi / 2"
    by (rule arctan_lbound, rule arctan_ubound)
  have p: "0 < pi" by simp
  consider "0 < x" | "x < 0" "0 \<le> y" | "x < 0" "y < 0" | "x = 0"
    by linarith
  then show ?thesis
  proof cases
    case 1
    then show ?thesis using b p by (simp add: atan2_def; linarith)
  next
    case 2
    then have "y / x \<le> 0" by (simp add: divide_nonneg_neg)
    then have "arctan (y / x) \<le> 0" by simp
    then show ?thesis using 2 b p by (simp add: atan2_def; linarith)
  next
    case 3
    then have "0 < y / x" by (simp add: divide_neg_neg)
    then have "0 < arctan (y / x)" by simp
    then show ?thesis using 3 b p by (simp add: atan2_def; linarith)
  next
    case 4
    then show ?thesis using p by (simp add: atan2_def; linarith)
  qed
qed

lemma degrees_range:
  assumes "- pi < a" and "a \<le> pi"
  shows "- 180 < a * (180 / pi) \<and> a * (180 / pi) \<le> 180"
proof -
  have p: "0 < pi" by simp
  have "a * (180 / pi) = (a / pi) * 180" by simp
  moreover have "- 1 < a / pi" using assms(1) p by (simp add: pos_less_divide_eq)
  moreover have "a / pi \<le> 1" using assms(2) p by (simp add: pos_divide_le_eq)
  ultimately show ?thesis by linarith
qed

lemma normalize_half_turn:
  assumes "- 180 < d" and "d \<le> 180"
  shows "(if d < 0 then d + 360 else d) = normalize360 d"
    and "0 \<le> normalize360 d" and "normalize360 d < 360"
proof -
  show a: "(if d < 0 then d + 360 else d) = normalize360 d"
  proof (cases "d < 0")
    case True
    have "mod360 d = d + 360"
      using True assms by (intro mod360_unique [where k = "- 1"]) simp_all
    then show ?thesis using True by (simp add: normalize360_eq_mod360)
  next
    case False
    then have "mod360 d = d" using assms by (intro mod360_id) simp_all
    then show ?thesis using False by (simp add: normalize360_eq_mod360)
  qed
  show "0 \<le> normalize360 d" "normalize360 d < 360"
    using mod360_range [of d] by (simp_all add: normalize360_eq_mod360)
qed




lemma vertexCot_degenerate:
  "vertexCot (Fin 0) = PInf" "vertexCot NegZero = NInf"
  "vertexCot (Fin 90) = Num (1 / 16331239353195370)"
  "vertexCot (Fin (- 90)) = Num (- (1 / 16331239353195370))"
  by (simp_all add: vertexCot_def jstan_def inf_of_sign_def)

lemma computeVertex_finite:
  assumes r: "calc_ut sw julianDay SE_ECL_NUT SEFLG_SWIEPH = Returns (Some r)"
    and c: "vertexCot latitude = Num cotL"
  shows "computeVertex sw julianDay latitude longitude
           = Inr (Num (vertexFromCot (data0 r * (pi / 180)) (ramcRadians sw julianDay longitude)
               cotL))"
proof -
  define obl where "obl = data0 r * (pi / 180)"
  define ramcRad where "ramcRad = ramcRadians sw julianDay longitude"
  define den where "den = sin obl * cotL - cos obl * sin ramcRad"
  define d where "d = atan2 (cos ramcRad) den * (180 / pi)"
  have rng: "- 180 < d \<and> d \<le> 180"
    unfolding d_def using atan2_range [of "cos ramcRad" den] by (intro degrees_range) simp_all
  have n: "(if d < 0 then d + 360 else d) = normalize360 d"
    and n0: "0 \<le> normalize360 d"
    using rng by (simp_all add: normalize_half_turn)
  have cv: "computeVertex sw julianDay latitude longitude
      = Inr (Num (jsmod ((if d < 0 then d + 360 else d) + 180) 360))"
    using r
    by (simp add: computeVertex_def c Let_def jsub_def d_def den_def obl_def
        ramcRad_def ramcRadians_def)
  have "jsmod (normalize360 d + 180) 360 = mod360 (normalize360 d + 180)"
    using n0 by (intro jsmod_360_nonneg) simp
  then have "computeVertex sw julianDay latitude longitude
      = Inr (Num (mod360 (normalize360 d + 180)))"
    unfolding cv n by simp
  moreover have "vertexFromCot obl ramcRad cotL = mod360 (normalize360 d + 180)"
    by (simp add: vertexFromCot_def Let_def d_def den_def)
  ultimately show ?thesis unfolding obl_def ramcRad_def by simp
qed


lemma vertexFromCot_range:
  "0 \<le> vertexFromCot obliquity ramcRad cotL \<and> vertexFromCot obliquity ramcRad cotL < 360"
  unfolding vertexFromCot_def Let_def by (rule mod360_range)



lemma example_obliquity:
  "calc_ut exampleProvider jd SE_ECL_NUT flags
     = Returns (Some \<lparr>flag = 2, error = [], data0 = 234392811 / 10000000\<rparr>)"
  by (simp add: exampleProvider_def SE_ECL_NUT_def SE_MARS_def SE_MEAN_APOG_def)


lemma computeVertex_latitude_zero:
  assumes r: "calc_ut sw julianDay SE_ECL_NUT SEFLG_SWIEPH = Returns (Some r)"
    and s: "0 < sin (data0 r * (pi / 180))"
  shows "computeVertex sw julianDay (Fin 0) longitude = Inr (Num 180)"
    and "computeVertex sw julianDay NegZero longitude = Inr (Num 0)"
proof -
  show "computeVertex sw julianDay (Fin 0) longitude = Inr (Num 180)"
    using r s
    by (simp add: computeVertex_def vertexCot_degenerate Let_def jsub_def inf_of_sign_def
        jsmod_def trunc_def)
  show "computeVertex sw julianDay NegZero longitude = Inr (Num 0)"
    using r s
    by (simp add: computeVertex_def vertexCot_degenerate Let_def jsub_def inf_of_sign_def
        jsmod_def trunc_def)
qed

lemma computeVertex_returns:
  assumes "calc_ut sw julianDay SE_ECL_NUT SEFLG_SWIEPH = Returns (Some r)"
  shows "\<exists>v. computeVertex sw julianDay latitude longitude = Inr v"
  using assms by (simp add: computeVertex_def Let_def)

text \<open>
  Claim C5, as the code has it. \<open>computeVertex\<close> has no check of the latitude, no clamp
  and no failure of its own. At latitude 0 the cotangent is \<open>+Infinity\<close>, at the negative
  zero \<open>-Infinity\<close>, and for an obliquity of positive sine the function returns 180 and
  0, whatever the sidereal time. At latitudes 90 and -90 the tangent of binary64
  arithmetic is finite, and the function returns the value of the Vertex formula at the
  cotangent \<open>1/16331239353195370\<close> and its negative, a number in \<open>[0, 360)\<close>.
\<close>

theorem vertex_no_degenerate_failure:
  assumes "calc_ut sw julianDay SE_ECL_NUT SEFLG_SWIEPH = Returns (Some r)"
    and "0 < sin (data0 r * (pi / 180))"
  shows "vertexCot (Fin 0) = PInf
         \<and> computeVertex sw julianDay (Fin 0) longitude = Inr (Num 180)
         \<and> vertexCot NegZero = NInf
         \<and> computeVertex sw julianDay NegZero longitude = Inr (Num 0)
         \<and> computeVertex sw julianDay (Fin 90) longitude
             = Inr (Num (vertexFromCot (data0 r * (pi / 180))
                 (ramcRadians sw julianDay longitude) (1 / 16331239353195370)))
         \<and> computeVertex sw julianDay (Fin (- 90)) longitude
             = Inr (Num (vertexFromCot (data0 r * (pi / 180))
                 (ramcRadians sw julianDay longitude) (- (1 / 16331239353195370))))
         \<and> 0 \<le> vertexFromCot (data0 r * (pi / 180)) (ramcRadians sw julianDay longitude)
               (1 / 16331239353195370)
         \<and> vertexFromCot (data0 r * (pi / 180)) (ramcRadians sw julianDay longitude)
               (1 / 16331239353195370) < 360
         \<and> 0 \<le> vertexFromCot (data0 r * (pi / 180)) (ramcRadians sw julianDay longitude)
               (- (1 / 16331239353195370))
         \<and> vertexFromCot (data0 r * (pi / 180)) (ramcRadians sw julianDay longitude)
               (- (1 / 16331239353195370)) < 360"
  using computeVertex_latitude_zero [OF assms]
    computeVertex_finite [OF assms(1) vertexCot_degenerate(3)]
    computeVertex_finite [OF assms(1) vertexCot_degenerate(4)]
    vertexCot_degenerate(1,2) vertexFromCot_range
  by simp

lemma example_obliquity_sine: "0 < sin (234392811 / 10000000 * (pi / 180))"
proof (rule sin_gt_zero)
  show "0 < 234392811 / 10000000 * (pi / 180)" by simp
  have "234392811 / 10000000 * (pi / 180) = (234392811 / 1800000000) * pi" by simp
  also have "\<dots> < 1 * pi" by (intro mult_strict_right_mono) simp_all
  finally show "234392811 / 10000000 * (pi / 180) < pi" by simp
qed

theorem vertex_no_degenerate_failure_witness:
  "calc_ut exampleProvider 2451545 SE_ECL_NUT SEFLG_SWIEPH
     = Returns (Some \<lparr>flag = 2, error = [], data0 = 234392811 / 10000000\<rparr>)
   \<and> 0 < sin (data0 \<lparr>flag = 2, error = [], data0 = 234392811 / 10000000\<rparr> * (pi / 180))
   \<and> computeVertex exampleProvider 2451545 (Fin 0) (173909 / 5000) = Inr (Num 180)
   \<and> computeVertex exampleProvider 2451545 NegZero (173909 / 5000) = Inr (Num 0)"
proof -
  have s: "0 < sin (data0 \<lparr>flag = 2, error = [], data0 = 234392811 / 10000000\<rparr> * (pi / 180))"
    using example_obliquity_sine by simp
  show ?thesis
    using vertex_no_degenerate_failure [OF example_obliquity [of 2451545 SEFLG_SWIEPH] s,
        where longitude = "173909 / 5000"]
      example_obliquity [of 2451545 SEFLG_SWIEPH] s
    by blast
qed

text \<open>
  At latitude 0, with the obliquity of J2000, the cotangent is infinite and the function
  returns 180 without any failure; at the negative zero it returns 0.
\<close>

theorem vertex_latitude_zero_example:
  "vertexCot (Fin 0) = PInf
   \<and> computeVertex exampleProvider 2451545 (Fin 0) (173909 / 5000) = Inr (Num 180)
   \<and> vertexCot NegZero = NInf
   \<and> computeVertex exampleProvider 2451545 NegZero (173909 / 5000) = Inr (Num 0)"
proof -
  have s: "0 < sin (data0 \<lparr>flag = 2, error = [], data0 = 234392811 / 10000000\<rparr> * (pi / 180))"
    using example_obliquity_sine by simp
  show ?thesis
    using computeVertex_latitude_zero [OF example_obliquity [of 2451545 SEFLG_SWIEPH] s,
        where longitude = "173909 / 5000"]
    by (simp add: vertexCot_degenerate)
qed


section \<open>The whole assembly of the first controller\<close>

lemma isADayChart_js_finite: "isADayChart_js (Num s) (Num a) = isADayChart s a"
  by (simp add: isADayChart_js_def isADayChart_def Let_def)

lemma fortuneLongitude0_js_finite:
  "fortuneLongitude0_js (Num a) sunLongitude moonLongitude
     = Num (fortuneLongitude0 a sunLongitude moonLongitude)"
  by (simp add: fortuneLongitude0_js_def fortuneLongitude0_def isADayChart_js_finite Let_def
      jsub_def)

lemma fortunePoint0_entry:
  assumes "cache_ok0 (cache e)" and "pts ''AC'' = Some ac" and "pts ''MC'' = Some mc"
  shows "fst (fortunePoint0 (pts, e) moonLongitude sunLongitude)
           = pts(''Fortune'' \<mapsto> recordOf0 (fortuneLongitude0_js (apparentLongitudeDd ac)
               sunLongitude moonLongitude))
         \<and> cache_ok0 (cache (snd (fortunePoint0 (pts, e) moonLongitude sunLongitude)))"
  using assms
    pointRecord0_memo [OF assms(1), of "fortuneLongitude0_js (apparentLongitudeDd ac)
      sunLongitude moonLongitude"]
  by (simp add: fortunePoint0_def Let_def split_def)

lemma fortunePoint0_other:
  assumes "k \<noteq> ''Fortune''"
  shows "fst (fortunePoint0 (pts, e) moonLongitude sunLongitude) k = pts k"
  using assms
  by (auto simp add: fortunePoint0_def Let_def split_def split: option.splits)

lemma calculateMC_returns:
  assumes "calc_ut sw julianDay SE_ECL_NUT 0 = Returns (Some r)"
  shows "\<exists>mc. calculateMC sw julianDay longitude = Inr mc"
  using assms by (simp add: calculateMC_def Let_def)

lemma pointsCalculations0_keys:
  assumes "(k, c) \<in> set pointsCalculations0"
  shows "k \<noteq> ''Fortune''"
  using assms by (auto simp add: pointsCalculations0_def)

lemma computeAdditionalPoints0_entries:
  assumes ok: "cache_ok0 (cache e)"
    and moon: "calc_ut sw julianDay SE_MOON SEFLG_SWIEPH = Returns t"
    and v: "computeVertex sw julianDay latitude longitude = Inr v"
    and mc: "calculateMC sw julianDay longitude = Inr mc"
  shows "\<exists>pts e'. computeAdditionalPoints0 sw e julianDay latitude longitude moonLongitude
             sunLongitude = Inr (pts, e')
           \<and> pts ''vertex'' = Some (recordOf0 v)
           \<and> pts ''MC'' = Some (recordOf0 (Num mc))
           \<and> (\<forall>k c. (k, c) \<in> set pointsCalculations0 \<and> k \<noteq> ''vertex'' \<and> k \<noteq> ''MC'' \<longrightarrow>
                 pts k = calcEntry0 sw julianDay (k, c))"
proof -
  obtain p1 e1 where lp: "collectPoints0 sw julianDay (Map.empty, e) = (p1, e1)"
    by (cases "collectPoints0 sw julianDay (Map.empty, e)")
  have d: "distinct (map fst pointsCalculations0)"
    by (simp add: pointsCalculations0_def)
  note L = calcLoop0 [OF ok d, of sw julianDay Map.empty]
  have ok1: "cache_ok0 (cache e1)"
    using L lp by (simp add: collectPoints0_def)
  have ent: "p1 k = calcEntry0 sw julianDay (k, c)" if "(k, c) \<in> set pointsCalculations0" for k c
    using collectPoints0_calc [OF ok that, of sw julianDay] lp by simp
  obtain vr c1 where r1: "pointRecord0 (cache e1) v = (vr, c1)"
    by (cases "pointRecord0 (cache e1) v")
  have vr: "vr = recordOf0 v" and okc1: "cache_ok0 c1"
    using pointRecord0_memo [OF ok1, of v] r1 by simp_all
  obtain mr c2 where r2: "pointRecord0 c1 (Num mc) = (mr, c2)"
    by (cases "pointRecord0 c1 (Num mc)")
  have mr: "mr = recordOf0 (Num mc)"
    using pointRecord0_memo [OF okc1, of "Num mc"] r2 by simp
  define p3 where "p3 = p1(''vertex'' \<mapsto> vr, ''MC'' \<mapsto> mr)"
  define res where "res = fortunePoint0 (p3, e1\<lparr>cache := c2\<rparr>) moonLongitude sunLongitude"
  have run: "computeAdditionalPoints0 sw e julianDay latitude longitude moonLongitude sunLongitude
               = Inr (fst res, snd res)"
    by (simp add: computeAdditionalPoints0_def lp moon v mc r1 r2 res_def p3_def)
  have a: "fst res ''vertex'' = Some (recordOf0 v)"
    unfolding res_def by (simp add: fortunePoint0_other p3_def vr)
  have b: "fst res ''MC'' = Some (recordOf0 (Num mc))"
    unfolding res_def by (simp add: fortunePoint0_other p3_def mr)
  have c: "fst res k = calcEntry0 sw julianDay (k, c)"
    if "(k, c) \<in> set pointsCalculations0" "k \<noteq> ''vertex''" "k \<noteq> ''MC''" for k c
    unfolding res_def
    using that pointsCalculations0_keys [OF that(1)] ent [OF that(1)]
    by (simp add: fortunePoint0_other p3_def)
  show ?thesis using run a b c by blast
qed

lemma computeAdditionalPoints0_fails:
  "calc_ut sw julianDay SE_MOON SEFLG_SWIEPH = Throws err \<Longrightarrow>
     computeAdditionalPoints0 sw e julianDay latitude longitude moonLongitude sunLongitude
       = Inl err"
  "calc_ut sw julianDay SE_MOON SEFLG_SWIEPH = Returns t \<Longrightarrow>
   computeVertex sw julianDay latitude longitude = Inl err \<Longrightarrow>
     computeAdditionalPoints0 sw e julianDay latitude longitude moonLongitude sunLongitude
       = Inl err"
  by (simp_all add: computeAdditionalPoints0_def split_def)


section \<open>Points the provider fails on\<close>

lemma example_entries:
  "calcEntry2 exampleProvider jd (''mars'', SE_MARS) = None"
  "calcEntry2 exampleProvider jd (''lilith'', SE_MEAN_APOG) = None"
  "calcEntry2 exampleProvider jd (''sun'', SE_SUN) = Some (recordOf2 150)"
  "calcEntry2 exampleProvider jd (''moon'', SE_MOON) = Some (recordOf2 200)"
  "calcEntry0 exampleProvider jd (''lilith'', SE_MEAN_APOG) = None"
  "calcEntry0 exampleProvider jd (''northNode'', SE_TRUE_NODE) = Some (recordOf0 (Num 10))"
  "calcEntry0 exampleProvider jd (''vertex'', SE_VERTEX) = Some (recordOf0 (Num 10))"
  by (simp_all add: calcEntry2_def calcEntry0_def exampleProvider_def SE_MARS_def SE_MEAN_APOG_def
      SE_ECL_NUT_def SE_SUN_def SE_MOON_def SE_TRUE_NODE_def SE_VERTEX_def SEFLG_SWIEPH_def)

lemma example_members:
  "(''mars'', SE_MARS) \<in> set pointsCalculations2"
  "(''lilith'', SE_MEAN_APOG) \<in> set pointsCalculations2"
  "(''sun'', SE_SUN) \<in> set pointsCalculations2"
  "(''moon'', SE_MOON) \<in> set pointsCalculations2"
  "(''lilith'', SE_MEAN_APOG) \<in> set pointsCalculations0"
  "(''northNode'', SE_TRUE_NODE) \<in> set pointsCalculations0"
  by (simp_all add: pointsCalculations2_def pointsCalculations0_def)

lemma freshEnv_ok: "cache_ok2 (cache freshEnv)" "cache_ok0 (cache freshEnv)"
  by (simp_all add: freshEnv_def cache_ok2_def cache_ok0_def)

lemma example_moon:
  "calc_ut exampleProvider jd SE_MOON SEFLG_SWIEPH
     = Returns (Some \<lparr>flag = 2, error = [], data0 = 200\<rparr>)"
  by (simp add: exampleProvider_def SE_MARS_def SE_MEAN_APOG_def SE_ECL_NUT_def SE_SUN_def
      SE_MOON_def)

lemma example_vertex_equator:
  "computeVertex exampleProvider 2451545 (Fin 0) (173909 / 5000) = Inr (Num 180)"
  using computeVertex_latitude_zero(1) [OF example_obliquity [of 2451545 SEFLG_SWIEPH]]
    example_obliquity_sine
  by simp

lemma recordOf0_longitude: "recordOf0 v = recordOf0 w \<longleftrightarrow> v = w"
  by (auto simp add: recordOf0_def)

text \<open>
  Claim C4, as the code has it. In the second controller, for every point of the list other
  than the Part of Fortune, the result holds the record of the returned longitude when the
  provider's call returns a result without error text, and no entry when the call throws
  or returns an error or no result; in that case the console names the point, and the call
  returns all the same. The first controller, when its further call for the Moon and its
  calls of \<open>computeVertex\<close> and \<open>calculateMC\<close> return, returns a result that holds a point
  of its list under the same condition on the flag and lacks it otherwise, but for the keys
  \<open>vertex\<close> and \<open>MC\<close>: under these it holds the records of the values computed after the
  loop, whatever the provider returned for them in the loop.
\<close>

theorem assembly_skips_failed_points:
  assumes "cache_ok2 (cache e)" and "(k, c) \<in> set pointsCalculations2" and "k \<noteq> ''fortune''"
    and "cache_ok0 (cache e0)" and "(k0, c0) \<in> set pointsCalculations0"
  shows "fst (computeAdditionalPoints2 sw e julianDay latitude longitude) k
           = calcEntry2 sw julianDay (k, c)
         \<and> (calcEntry2 sw julianDay (k, c) = None \<longrightarrow>
              ''Error calculating '' @ k @ '':''
                \<in> set (console (snd (computeAdditionalPoints2 sw e julianDay latitude longitude))))
         \<and> (calc_ut sw julianDay SE_MOON SEFLG_SWIEPH = Returns t
              \<and> computeVertex sw julianDay lat longitude = Inr v
              \<and> calculateMC sw julianDay longitude = Inr mc \<longrightarrow>
            (\<exists>pts e'. computeAdditionalPoints0 sw e0 julianDay lat longitude moonLongitude
                 sunLongitude = Inr (pts, e')
               \<and> (k0 \<noteq> ''vertex'' \<and> k0 \<noteq> ''MC'' \<longrightarrow> pts k0 = calcEntry0 sw julianDay (k0, c0))
               \<and> pts ''vertex'' = Some (recordOf0 v)
               \<and> pts ''MC'' = Some (recordOf0 (Num mc))))"
proof -
  have first: "\<exists>pts e'. computeAdditionalPoints0 sw e0 julianDay lat longitude moonLongitude
                 sunLongitude = Inr (pts, e')
               \<and> (k0 \<noteq> ''vertex'' \<and> k0 \<noteq> ''MC'' \<longrightarrow> pts k0 = calcEntry0 sw julianDay (k0, c0))
               \<and> pts ''vertex'' = Some (recordOf0 v)
               \<and> pts ''MC'' = Some (recordOf0 (Num mc))"
    if "calc_ut sw julianDay SE_MOON SEFLG_SWIEPH = Returns t"
      "computeVertex sw julianDay lat longitude = Inr v"
      "calculateMC sw julianDay longitude = Inr mc"
    using computeAdditionalPoints0_entries [OF assms(4) that, of moonLongitude sunLongitude]
      assms(5)
    by blast
  show ?thesis
    using computeAdditionalPoints2_calc [OF assms(1,2,3)]
      computeAdditionalPoints2_logs [OF assms(1,2,3)] first
    by blast
qed

theorem assembly_skips_failed_points_witness:
  "cache_ok2 (cache freshEnv) \<and> (''mars'', SE_MARS) \<in> set pointsCalculations2
   \<and> ''mars'' \<noteq> ''fortune'' \<and> cache_ok0 (cache freshEnv)
   \<and> (''lilith'', SE_MEAN_APOG) \<in> set pointsCalculations0
   \<and> calcEntry2 exampleProvider 2451545 (''mars'', SE_MARS) = None
   \<and> calc_ut exampleProvider 2451545 SE_MOON SEFLG_SWIEPH
       = Returns (Some \<lparr>flag = 2, error = [], data0 = 200\<rparr>)
   \<and> computeVertex exampleProvider 2451545 (Fin 0) (173909 / 5000) = Inr (Num 180)
   \<and> ''lilith'' \<noteq> ''vertex'' \<and> ''lilith'' \<noteq> ''MC''
   \<and> fst (computeAdditionalPoints2 exampleProvider freshEnv 2451545 (320853 / 10000)
        (173909 / 5000)) ''mars'' = None
   \<and> ''Error calculating '' @ ''mars'' @ '':''
        \<in> set (console (snd (computeAdditionalPoints2 exampleProvider freshEnv 2451545
             (320853 / 10000) (173909 / 5000))))
   \<and> (\<exists>mc pts e'. calculateMC exampleProvider 2451545 (173909 / 5000) = Inr mc
        \<and> computeAdditionalPoints0 exampleProvider freshEnv 2451545 (Fin 0) (173909 / 5000)
            200 150 = Inr (pts, e')
        \<and> pts ''lilith'' = None
        \<and> pts ''vertex'' = Some (recordOf0 (Num 180))
        \<and> pts ''MC'' = Some (recordOf0 (Num mc)))"
proof -
  have h: "''mars'' \<noteq> ''fortune''" "''lilith'' \<noteq> ''vertex''" "''lilith'' \<noteq> ''MC''"
    by simp_all
  obtain mc where mc: "calculateMC exampleProvider 2451545 (173909 / 5000) = Inr mc"
    using calculateMC_returns [OF example_obliquity [of 2451545 0]] by blast
  note T = assembly_skips_failed_points [OF freshEnv_ok(1) example_members(1) h(1)
      freshEnv_ok(2) example_members(5), where sw = exampleProvider and julianDay = 2451545
      and latitude = "320853 / 10000" and longitude = "173909 / 5000" and lat = "Fin 0"
      and t = "Some \<lparr>flag = 2, error = [], data0 = 200\<rparr>" and v = "Num 180" and mc = mc
      and moonLongitude = 200 and sunLongitude = 150]
  have e1: "calcEntry2 exampleProvider 2451545 (''mars'', SE_MARS) = None"
    by (rule example_entries(1))
  have e5: "calcEntry0 exampleProvider 2451545 (''lilith'', SE_MEAN_APOG) = None"
    by (rule example_entries(5))
  have m: "calc_ut exampleProvider 2451545 SE_MOON SEFLG_SWIEPH
       = Returns (Some \<lparr>flag = 2, error = [], data0 = 200\<rparr>)"
    by (rule example_moon)
  note v = example_vertex_equator
  have second: "fst (computeAdditionalPoints2 exampleProvider freshEnv 2451545 (320853 / 10000)
        (173909 / 5000)) ''mars'' = None
     \<and> ''Error calculating '' @ ''mars'' @ '':''
        \<in> set (console (snd (computeAdditionalPoints2 exampleProvider freshEnv 2451545
             (320853 / 10000) (173909 / 5000))))"
    using T e1 by simp
  have first: "\<exists>pts e'. computeAdditionalPoints0 exampleProvider freshEnv 2451545 (Fin 0)
            (173909 / 5000) 200 150 = Inr (pts, e')
        \<and> pts ''lilith'' = None
        \<and> pts ''vertex'' = Some (recordOf0 (Num 180))
        \<and> pts ''MC'' = Some (recordOf0 (Num mc))"
    using T m v mc h(2,3) e5 by auto
  show ?thesis
    using freshEnv_ok example_members(1,5) h e1 m v second first mc by blast
qed

text \<open>
  With a provider whose call for Mars throws and whose call for Lilith returns an error,
  both controllers return a result that holds other points and lacks the failed ones; no
  failure of the call names them. Under \<open>vertex\<close> the first controller holds the computed
  180, not the 10 that the provider returned for this key in the loop.
\<close>

theorem assembly_drops_mars:
  "fst (computeAdditionalPoints2 exampleProvider freshEnv 2451545 (320853 / 10000)
      (173909 / 5000)) ''mars'' = None
   \<and> fst (computeAdditionalPoints2 exampleProvider freshEnv 2451545 (320853 / 10000)
      (173909 / 5000)) ''lilith'' = None
   \<and> fst (computeAdditionalPoints2 exampleProvider freshEnv 2451545 (320853 / 10000)
      (173909 / 5000)) ''sun'' = Some (recordOf2 150)
   \<and> (\<exists>pts e'. computeAdditionalPoints0 exampleProvider freshEnv 2451545 (Fin 0)
          (173909 / 5000) 200 150 = Inr (pts, e')
        \<and> pts ''lilith'' = None
        \<and> pts ''northNode'' = Some (recordOf0 (Num 10))
        \<and> pts ''vertex'' = Some (recordOf0 (Num 180))
        \<and> pts ''vertex'' \<noteq> calcEntry0 exampleProvider 2451545 (''vertex'', SE_VERTEX))"
proof -
  have n: "''mars'' \<noteq> ''fortune''" "''lilith'' \<noteq> ''fortune''" "''sun'' \<noteq> ''fortune''"
    by simp_all
  have second: "fst (computeAdditionalPoints2 exampleProvider freshEnv 2451545 (320853 / 10000)
      (173909 / 5000)) ''mars'' = None
   \<and> fst (computeAdditionalPoints2 exampleProvider freshEnv 2451545 (320853 / 10000)
      (173909 / 5000)) ''lilith'' = None
   \<and> fst (computeAdditionalPoints2 exampleProvider freshEnv 2451545 (320853 / 10000)
      (173909 / 5000)) ''sun'' = Some (recordOf2 150)"
    using computeAdditionalPoints2_calc [OF freshEnv_ok(1) example_members(1) n(1)]
      computeAdditionalPoints2_calc [OF freshEnv_ok(1) example_members(2) n(2)]
      computeAdditionalPoints2_calc [OF freshEnv_ok(1) example_members(3) n(3)]
    by (simp add: example_entries)
  obtain mc where mc: "calculateMC exampleProvider 2451545 (173909 / 5000) = Inr mc"
    using calculateMC_returns [OF example_obliquity [of 2451545 0]] by blast
  obtain pts e' where run: "computeAdditionalPoints0 exampleProvider freshEnv 2451545 (Fin 0)
          (173909 / 5000) 200 150 = Inr (pts, e')"
    and vx: "pts ''vertex'' = Some (recordOf0 (Num 180))"
    and ent: "\<And>k c. (k, c) \<in> set pointsCalculations0 \<Longrightarrow> k \<noteq> ''vertex'' \<Longrightarrow> k \<noteq> ''MC'' \<Longrightarrow>
                 pts k = calcEntry0 exampleProvider 2451545 (k, c)"
    using computeAdditionalPoints0_entries [OF freshEnv_ok(2) example_moon
        example_vertex_equator mc, of 200 150]
    by blast
  have l: "pts ''lilith'' = None"
    using ent [OF example_members(5)] by (simp add: example_entries)
  have nn: "pts ''northNode'' = Some (recordOf0 (Num 10))"
    using ent [OF example_members(6)] by (simp add: example_entries)
  have d: "pts ''vertex'' \<noteq> calcEntry0 exampleProvider 2451545 (''vertex'', SE_VERTEX)"
    by (simp add: vx example_entries recordOf0_longitude)
  show ?thesis using second run l nn vx d by blast
qed


section \<open>The adjustment of the node\<close>

lemma wrap360_below_thirty: "wrap360 (30 - 1 / 2 ^ 48) = 30"
  unfolding wrap360_def fl_rounds_examples by (simp add: jsmod_def trunc_def)

lemma floor_below_thirty: "\<lfloor>(30 - 1 / 2 ^ 48) / (30 :: real)\<rfloor> = 0"
  by (rule floor_unique) simp_all

lemma signOf2_examples: "signOf2 30 = Some Taurus" "signOf2 (30 - 1 / 2 ^ 48) = Some Aries"
proof -
  show "signOf2 30 = Some Taurus"
    by (simp add: signOf2_def jsmod_def trunc_def index_or_null_def signs_def)
  show "signOf2 (30 - 1 / 2 ^ 48) = Some Aries"
    unfolding signOf2_def floor_below_thirty
    by (simp add: jsmod_def trunc_def index_or_null_def signs_def)
qed

lemma processSwephResult2_record:
  assumes "cache_ok2 (cache e)" and "error r = []"
  shows "fst (processSwephResult2 e (Some r) pointName)
           = Some (pointName,
               recordOf2 (if pointName = ''node'' then wrap360 (data0 r) else data0 r))"
  using processSwephResult2_memo [OF assms(1), of "Some r" pointName] assms(2) by simp

lemma processSwephResult2_node:
  assumes "cache_ok2 (cache e)" and "error r = []" and "wrap360 (data0 r) = y"
  shows "map_option snd (fst (processSwephResult2 e (Some r) ''node'')) = Some (recordOf2 y)"
  using processSwephResult2_record [OF assms(1,2), of "''node''"] assms(3) by simp

lemma processSwephResult2_other:
  assumes "cache_ok2 (cache e)" and "error r = []" and "pointName \<noteq> ''node''"
  shows "map_option snd (fst (processSwephResult2 e (Some r) pointName))
           = Some (recordOf2 (data0 r))"
  using processSwephResult2_record [OF assms(1,2), of pointName] assms(3) by simp

text \<open>
  Claim C10, as the code has it. For a result without error text and a longitude in
  \<open>[0, 360)\<close>, \<open>processSwephResult\<close> of the second controller returns a record under
  every name. Under the name \<open>node\<close> it is the record of \<open>(longitude + 360) % 360\<close>, a
  number in \<open>[0, 360)\<close>; under any other name it is the record of the longitude itself.
  Where the sum \<open>longitude + 360\<close> is exact the adjustment changes nothing, and the record
  and the memo object are the same under both names.
\<close>

theorem node_adjustment_identity:
  assumes "cache_ok2 (cache e)" and "error r = []" and "0 \<le> data0 r" and "data0 r < 360"
  shows "fst (processSwephResult2 e (Some r) ''node'')
           = Some (''node'', recordOf2 (wrap360 (data0 r)))
         \<and> (pointName \<noteq> ''node'' \<longrightarrow>
              fst (processSwephResult2 e (Some r) pointName)
                = Some (pointName, recordOf2 (data0 r)))
         \<and> 0 \<le> wrap360 (data0 r) \<and> wrap360 (data0 r) < 360
         \<and> (fl (data0 r + 360) = data0 r + 360 \<longrightarrow>
              wrap360 (data0 r) = data0 r
              \<and> map_option snd (fst (processSwephResult2 e (Some r) ''node''))
                  = map_option snd (fst (processSwephResult2 e (Some r) pointName))
              \<and> cache (snd (processSwephResult2 e (Some r) ''node''))
                  = cache (snd (processSwephResult2 e (Some r) pointName)))"
proof -
  have lo: "- 360 \<le> data0 r" using assms(3) by simp
  have a: "fst (processSwephResult2 e (Some r) ''node'')
           = Some (''node'', recordOf2 (wrap360 (data0 r)))"
    using processSwephResult2_record [OF assms(1,2), of "''node''"] by simp
  have b: "fst (processSwephResult2 e (Some r) pointName) = Some (pointName, recordOf2 (data0 r))"
    if "pointName \<noteq> ''node''"
    using processSwephResult2_record [OF assms(1,2), of pointName] that by simp
  have c: "0 \<le> wrap360 (data0 r) \<and> wrap360 (data0 r) < 360"
    using wrap360_range [OF lo] by simp
  have d: "wrap360 (data0 r) = data0 r
      \<and> map_option snd (fst (processSwephResult2 e (Some r) ''node''))
          = map_option snd (fst (processSwephResult2 e (Some r) pointName))
      \<and> cache (snd (processSwephResult2 e (Some r) ''node''))
          = cache (snd (processSwephResult2 e (Some r) pointName))"
    if ex: "fl (data0 r + 360) = data0 r + 360"
  proof -
    have w: "wrap360 (data0 r) = data0 r"
      using wrap360_exact [OF lo ex] assms(3,4) by (simp add: mod360_id)
    show ?thesis
      by (simp add: processSwephResult2_def w logError_def Let_def split: prod.splits)
  qed
  show ?thesis using a b c d by blast
qed

theorem node_adjustment_identity_witness:
  "cache_ok2 (cache freshEnv) \<and> error \<lparr>flag = 2, error = [], data0 = 247 / 2\<rparr> = []
   \<and> 0 \<le> data0 \<lparr>flag = 2, error = [], data0 = 247 / 2\<rparr>
   \<and> data0 \<lparr>flag = 2, error = [], data0 = 247 / 2\<rparr> < 360
   \<and> ''sun'' \<noteq> ''node''
   \<and> fl (data0 \<lparr>flag = 2, error = [], data0 = 247 / 2\<rparr> + 360)
       = data0 \<lparr>flag = 2, error = [], data0 = 247 / 2\<rparr> + 360
   \<and> fst (processSwephResult2 freshEnv (Some \<lparr>flag = 2, error = [], data0 = 247 / 2\<rparr>) ''node'')
       = Some (''node'', recordOf2 (247 / 2))
   \<and> fst (processSwephResult2 freshEnv (Some \<lparr>flag = 2, error = [], data0 = 247 / 2\<rparr>) ''sun'')
       = Some (''sun'', recordOf2 (247 / 2))"
proof -
  let ?r = "\<lparr>flag = 2, error = [], data0 = 247 / 2\<rparr>"
  have h1: "error ?r = []" by simp
  have h2: "0 \<le> data0 ?r" by simp
  have h3: "data0 ?r < 360" by simp
  have h4: "''sun'' \<noteq> ''node''" by simp
  have h5: "fl (data0 ?r + 360) = data0 ?r + 360" using fl_exact_examples(6) by simp
  note T = node_adjustment_identity [OF freshEnv_ok(1) h1 h2 h3, of "''sun''"]
  have w: "wrap360 (data0 ?r) = data0 ?r" using T h5 by blast
  have "fst (processSwephResult2 freshEnv (Some ?r) ''node'')
       = Some (''node'', recordOf2 (wrap360 (data0 ?r)))"
    using T by blast
  then have a: "fst (processSwephResult2 freshEnv (Some ?r) ''node'')
       = Some (''node'', recordOf2 (247 / 2))"
    unfolding w by simp
  have b: "fst (processSwephResult2 freshEnv (Some ?r) ''sun'') = Some (''sun'', recordOf2 (247 / 2))"
    using T h4 by simp
  show ?thesis using freshEnv_ok(1) h1 h2 h3 h4 h5 a b by blast
qed

text \<open>
  The longitude next below 30 in binary64 arithmetic is \<open>30 - 2^-48\<close>. Its sum with 360
  rounds to 390, so the adjustment turns it into 30: under the name \<open>node\<close> the record
  holds 30 and the second sign, under any other name the longitude itself and the first
  sign.
\<close>

theorem node_adjustment_counterexample:
  "(0 :: real) \<le> 30 - 1 / 2 ^ 48 \<and> (30 - 1 / 2 ^ 48 :: real) < 360
   \<and> wrap360 (30 - 1 / 2 ^ 48) = 30 \<and> wrap360 (30 - 1 / 2 ^ 48) \<noteq> 30 - 1 / 2 ^ 48
   \<and> map_option snd
        (fst (processSwephResult2 freshEnv
           (Some \<lparr>flag = 2, error = [], data0 = 30 - 1 / 2 ^ 48\<rparr>) ''node''))
       = Some (recordOf2 30)
   \<and> map_option snd
        (fst (processSwephResult2 freshEnv
           (Some \<lparr>flag = 2, error = [], data0 = 30 - 1 / 2 ^ 48\<rparr>) ''sun''))
       = Some (recordOf2 (30 - 1 / 2 ^ 48))
   \<and> zodiacSign (recordOf2 30) = Some Taurus
   \<and> zodiacSign (recordOf2 (30 - 1 / 2 ^ 48)) = Some Aries
   \<and> recordOf2 30 \<noteq> recordOf2 (30 - 1 / 2 ^ 48)"
proof -
  let ?r = "\<lparr>flag = 2, error = [], data0 = 30 - 1 / 2 ^ 48\<rparr>"
  have e: "error ?r = []" by simp
  have a: "map_option snd (fst (processSwephResult2 freshEnv (Some ?r) ''node''))
       = Some (recordOf2 30)"
    by (rule processSwephResult2_node [OF freshEnv_ok(1) e])
      (simp only: calc_result.select_convs wrap360_below_thirty)
  have b: "map_option snd (fst (processSwephResult2 freshEnv (Some ?r) ''sun''))
       = Some (recordOf2 (30 - 1 / 2 ^ 48))"
    using processSwephResult2_other [OF freshEnv_ok(1) e, of "''sun''"]
    by (simp only: calc_result.select_convs) simp
  have s: "zodiacSign (recordOf2 30) = Some Taurus"
    "zodiacSign (recordOf2 (30 - 1 / 2 ^ 48)) = Some Aries"
    unfolding recordOf2_def by (simp_all only: PointRecord.select_convs signOf2_examples)
  have n: "recordOf2 30 \<noteq> recordOf2 (30 - 1 / 2 ^ 48)"
    using s by auto
  have w: "wrap360 (30 - 1 / 2 ^ 48) \<noteq> 30 - 1 / 2 ^ 48"
    unfolding wrap360_below_thirty by simp
  have r: "(0 :: real) \<le> 30 - 1 / 2 ^ 48" "(30 - 1 / 2 ^ 48 :: real) < 360"
    by simp_all
  show ?thesis using r wrap360_below_thirty w a b s n by blast
qed


section \<open>The memo object across a call of the second controller\<close>

lemma computeAdditionalPoints2_keeps_memo:
  assumes "cache_ok2 (cache e)"
  shows "cache_ok2 (cache (snd (computeAdditionalPoints2 sw e julianDay latitude longitude)))"
proof -
  let ?ps = "butlast pointsCalculations2"
  let ?hs = "housesPoints2 sw e julianDay latitude longitude"
  let ?lp = "foldl (pointStep2 sw julianDay) ?hs ?ps"
  note ok1 = computeAdditionalPoints2_loop(1) [OF assms, of sw julianDay latitude longitude]
  have "foldl (pointStep2 sw julianDay) ?hs (?ps @ [(''fortune'', CodeStr ''FORTUNE'')])
          = pointStep2 sw julianDay (fst ?lp, snd ?lp) (''fortune'', CodeStr ''FORTUNE'')"
    by (simp del: butlast.simps)
  then have "computeAdditionalPoints2 sw e julianDay latitude longitude
          = pointStep2 sw julianDay (fst ?lp, snd ?lp) (''fortune'', CodeStr ''FORTUNE'')"
    unfolding computeAdditionalPoints2_def using pointsCalculations2_split by simp
  then show ?thesis
    using fortuneStep2 [OF ok1, where p = "(''fortune'', CodeStr ''FORTUNE'')" and sw = sw
        and julianDay = julianDay and pts = "fst ?lp"]
    by simp
qed


section \<open>The Part of Fortune in the loop of the second controller\<close>

lemma computeAdditionalPoints2_fortune_example:
  "fst (computeAdditionalPoints2 exampleProvider freshEnv 2451545 (320853 / 10000)
      (173909 / 5000)) ''fortune'' = Some (recordOf2 50)"
proof -
  let ?hs = "housesPoints2 exampleProvider freshEnv 2451545 (320853 / 10000) (173909 / 5000)"
  let ?lp = "foldl (pointStep2 exampleProvider 2451545) ?hs (butlast pointsCalculations2)"
  note L = computeAdditionalPoints2_loop [OF freshEnv_ok(1), of exampleProvider 2451545
      "320853 / 10000" "173909 / 5000"]
  have hs: "fst ?hs ''AC'' = Some (recordOf2 100)"
    using housesPoints2_memo [OF freshEnv_ok(1), of exampleProvider 2451545
        "320853 / 10000" "173909 / 5000"]
    by (simp add: exampleProvider_def)
  have m: "map_of (butlast pointsCalculations2) ''AC'' = None"
    "map_of (butlast pointsCalculations2) ''sun'' = Some SE_SUN"
    "map_of (butlast pointsCalculations2) ''moon'' = Some SE_MOON"
    by (simp_all add: pointsCalculations2_def)
  have ac: "fst ?lp ''AC'' = Some (recordOf2 100)"
    unfolding L(2) [of "''AC''"] m using hs by simp
  have sun: "fst ?lp ''sun'' = Some (recordOf2 150)"
    unfolding L(2) [of "''sun''"] m by (simp add: example_entries)
  have moon: "fst ?lp ''moon'' = Some (recordOf2 200)"
    unfolding L(2) [of "''moon''"] m by (simp add: example_entries)
  have f: "fortuneLongitude2 100 150 200 = 50"
    by (simp add: fortuneLongitude2_def isDayChart_def wrap360_def fl_exact_examples jsmod_def
        trunc_def)
  show ?thesis
    unfolding L(3) ac sun moon by (simp add: recordOf2_def f)
qed

text \<open>
  Claim C1 at its own example. With the Ascendant at 100, the Sun at 150 and the Moon at 200
  the chart is a day chart for both controllers, and Ascendant + Moon - Sun is 150 modulo
  360. The first controller returns 150. The second controller takes the other branch for a
  day chart, Ascendant - Moon + Sun, and returns 50; so does its whole
  \<open>computeAdditionalPoints\<close> on a provider with these longitudes.
\<close>

theorem fortune2_day_chart_example:
  "isDayChart 150 100 \<and> fortuneLongitude2 100 150 200 = 50
   \<and> mod360 (100 + 200 - 150) = 150 \<and> fortuneLongitude0 100 150 200 = 150
   \<and> map_option apparentLongitudeDd
        (fst (computeAdditionalPoints2 exampleProvider freshEnv 2451545 (320853 / 10000)
           (173909 / 5000)) ''fortune'') = Some 50"
proof -
  have "isDayChart 150 100 \<and> fortuneLongitude2 100 150 200 = 50
   \<and> mod360 (100 + 200 - 150) = 150 \<and> fortuneLongitude0 100 150 200 = 150"
    by (simp add: isDayChart_def isADayChart_def fortuneLongitude2_def fortuneLongitude0_def
      wrap360_def fl_exact_examples mod360_def jsmod_def trunc_def)
  then show ?thesis
    by (simp add: computeAdditionalPoints2_fortune_example recordOf2_def)
qed

end
